theory Spec2Isabelle
  imports Main
begin

section \<open>The element sequencer: handleStream\<close>

text \<open>
  A \<open>StackElement\<close> is the object handleStream builds for every opened tag. The
  source's field \<open>done\<close> is written \<open>el_done\<close>. \<open>index\<close> is a JavaScript number
  holding an integer; how \<open>index++\<close> rounds beyond the safe integers is modelled by
  \<open>number_increment\<close> below.
  \<open>attributes\<close> is the parser's attribute object: a finite map from names to values,
  where a missing key reads as \<open>undefined\<close> (\<open>None\<close>).
\<close>

record StackElement =
  index :: int
  tag :: string
  attributes :: "string \<rightharpoonup> string"
  content :: "string list"
  el_done :: bool

text \<open>
  The events the tag parser yields (\<open>result.value\<close> with its \<open>type\<close> field). The
  parser itself (xmlStreamParser) is not part of the sources under study; handleStream
  takes it as a parameter below.
\<close>

datatype event = Start string "string \<rightharpoonup> string" | Text string | End

text \<open>
  The variables handleStream closes over: \<open>current\<close>, \<open>stack\<close> and the running
  \<open>index\<close> (written \<open>counter\<close>, since \<open>index\<close> is the element's field). The stack
  is a JavaScript array: \<open>push\<close> appends at the end and \<open>pop\<close> removes the last
  entry, returning \<open>undefined\<close> on an empty array.
\<close>

record stream_state =
  current :: "StackElement option"
  stack :: "StackElement list"
  counter :: int

definition initial_stream :: "int \<Rightarrow> stream_state" where
  "initial_stream initialIndex = \<lparr>current = None, stack = [], counter = initialIndex\<rparr>"

text \<open>
  The body of the \<open>while\<close> loop of handleChunk, for one parser event. The callback
  \<open>fn\<close> acts on a state \<open>'s\<close> of its own; it is called synchronously and receives the
  element as it is at that moment (the dispatcher reads every field it needs before it
  returns, so a snapshot is what it observes of the mutable object). The counter is
  incremented in the integers, which is what \<open>index++\<close> does within the safe
  integers; \<open>handleEvent_number\<close> below has the increment of the number itself.
\<close>

fun handleEvent ::
  "(StackElement \<Rightarrow> 's \<Rightarrow> 's) \<Rightarrow> event \<Rightarrow> stream_state \<times> 's \<Rightarrow> stream_state \<times> 's" where
  "handleEvent fn (Start nm attrs) (st, s) =
     (let stack' = (case current st of Some c \<Rightarrow> stack st @ [c] | None \<Rightarrow> stack st);
          el = \<lparr>index = counter st, tag = nm, attributes = attrs, content = [],
                el_done = False\<rparr>
      in (\<lparr>current = Some el, stack = stack', counter = counter st + 1\<rparr>, fn el s))"
| "handleEvent fn End (st, s) =
     (let s' = (case current st of Some c \<Rightarrow> fn (c\<lparr>el_done := True\<rparr>) s | None \<Rightarrow> s)
      in (st\<lparr>current := (if stack st = [] then None else Some (last (stack st))),
              stack := butlast (stack st)\<rparr>, s'))"
| "handleEvent fn (Text txt) (st, s) =
     (case current st of
        Some c \<Rightarrow>
          (let el = c\<lparr>content := content c @ [txt]\<rparr>
           in (st\<lparr>current := Some el\<rparr>, fn el s))
      | None \<Rightarrow> (st, s))"

text \<open>
  handleChunk: the events the parser yields for one chunk, handled in order. The source
  loops until the parser asks for more input; the list is what it yielded until then.
\<close>

definition handleChunk ::
  "(StackElement \<Rightarrow> 's \<Rightarrow> 's) \<Rightarrow> event list \<Rightarrow> stream_state \<times> 's \<Rightarrow> stream_state \<times> 's" where
  "handleChunk fn evs s = foldl (\<lambda>acc ev. handleEvent fn ev acc) s evs"












text \<open>
  A callback that only records its invocations: the trace of the elements handed to
  \<open>fn\<close>, oldest first.
\<close>

definition record_call :: "StackElement \<Rightarrow> StackElement list \<Rightarrow> StackElement list" where
  "record_call el tr = tr @ [el]"



fun is_Start :: "event \<Rightarrow> bool" where
  "is_Start (Start nm attrs) = True"
| "is_Start ev = False"


text \<open>The invocations for one index, and the latest of them.\<close>

definition calls_for :: "int \<Rightarrow> StackElement list \<Rightarrow> StackElement list" where
  "calls_for i tr = filter (\<lambda>c. index c = i) tr"

definition last_call :: "int \<Rightarrow> StackElement list \<Rightarrow> StackElement option" where
  "last_call i tr = (if calls_for i tr = [] then None else Some (last (calls_for i tr)))"




section \<open>The dispatcher: createContextStreamHandler\<close>

subsection \<open>Log records\<close>

text \<open>
  The \<open>ref\<close> discriminator of a log record, and the values its \<open>data\<close> field takes in
  this file: \<open>undefined\<close>, the object \<open>{error: s}\<close> built when an action fails (its
  \<open>error\<close> field is a string, or \<open>undefined\<close> when JSON.stringify returned that), the
  trimmed text of an output, and any other value a collaborator returns.
\<close>

datatype ref_kind = Thought | ActionCall | ActionResult | Output

datatype data_value =
  Undefined | ErrorObject "string option" | StringData string | OtherData string

text \<open>
  What a call of JSON.stringify does: it returns a string; it returns \<open>undefined\<close> (for
  \<open>undefined\<close>, a function or a symbol); or it throws (a circular structure, a BigInt,
  a throwing \<open>toJSON\<close>).
\<close>

datatype json_result = JsonString string | JsonUndefined | JsonThrows

text \<open>
  A log record is a JavaScript object; \<open>PartialLog\<close> is the same object type with only
  \<open>ref\<close>, \<open>id\<close>, \<open>timestamp\<close> and \<open>processed\<close> required. One record type holds both: a
  field that is absent or \<open>undefined\<close> is \<open>None\<close> (\<open>Undefined\<close> for \<open>data\<close>). The source's
  fields \<open>id\<close>, \<open>content\<close> and \<open>type\<close> are written \<open>log_id\<close>, \<open>log_content\<close> and
  \<open>output_type\<close>.
\<close>

record Log =
  ref :: ref_kind
  log_id :: string
  timestamp :: int
  processed :: bool
  log_content :: "string option"
  name :: "string option"
  data :: data_value
  output_type :: "string option"
  callId :: "string option"

record WorkingMemory =
  thoughts :: "Log list"
  calls :: "Log list"
  results :: "Log list"
  outputs :: "Log list"

subsection \<open>What the dispatcher can observe and change\<close>

text \<open>
  Calls to the optional hooks and to the logger are recorded in order, as is every call
  of generateEpisode with its three records.
\<close>

datatype hook_call = onThinking Log | onLogStream Log bool

datatype logger_call = LogDebug string string | LogError string string

text \<open>
  An asynchronous function runs synchronously up to its first \<open>await\<close>; what is left is
  a continuation that runs in a later turn of the event loop, once the awaited promise
  has settled. The pending continuations of the dispatcher are:
  \<^item> \<open>AwaitPrepare call\<close>: handleActionCallStream, suspended at
    \<open>await prepareActionCall(...)\<close>;
  \<^item> \<open>AwaitAction call\<close>: the promise \<open>handleActionCall(...).catch(...).then(...)\<close> pushed
    to \<open>actionCalls\<close>;
  \<^item> \<open>AwaitOutput outputRef\<close>: handleOutputStream, suspended at \<open>await handleOutput(...)\<close>;
  \<^item> \<open>AwaitEpisode\<close>: the promise \<open>generateEpisode(...).catch(...)\<close>.
\<close>

datatype task = AwaitPrepare Log | AwaitAction Log | AwaitOutput Log | AwaitEpisode

text \<open>
  Everything createContextStreamHandler closes over and its functions read or write:
  its own \<open>state\<close> (\<open>state_index\<close>, \<open>logsByIndex\<close>), the shared \<open>chain\<close>,
  \<open>workingMemory\<close> and \<open>actionCalls\<close> (one entry per pushed promise, named by its
  call), the flag \<open>abortSignal?.aborted\<close> (false when there is no signal), the flag
  \<open>agent.memory.generateMemories\<close>, the recorded hook, logger and generateEpisode calls,
  the pending continuations, and the two ambient sources: \<open>randomUUIDv7()\<close> returns
  \<open>uuids drawn\<close> and advances \<open>drawn\<close>, \<open>Date.now()\<close> returns \<open>clock\<close>.
\<close>

record dispatcher =
  state_index :: int
  logsByIndex :: "int \<rightharpoonup> Log"
  chain :: "Log list"
  workingMemory :: WorkingMemory
  actionCalls :: "Log list"
  aborted :: bool
  generateMemories :: bool
  hooks :: "hook_call list"
  logger :: "logger_call list"
  episodes :: "(Log \<times> Log \<times> Log) list"
  suspended :: "task list"
  uuids :: "nat \<Rightarrow> string"
  drawn :: nat
  clock :: int

subsection \<open>getOrCreateRef\<close>

text \<open>
  The record stored on the first call for an index is
  \<open>{id: randomUUIDv7(), timestamp: Date.now(), processed: false, ...ref}\<close>, where \<open>ref\<close>
  holds the \<open>ref\<close> field only. Later calls return the stored record and draw nothing.
\<close>

definition getOrCreateRef :: "int \<Rightarrow> ref_kind \<Rightarrow> dispatcher \<Rightarrow> Log \<times> dispatcher" where
  "getOrCreateRef i r st =
     (case logsByIndex st i of
        Some stored \<Rightarrow> (stored, st)
      | None \<Rightarrow>
          (let fresh = \<lparr>ref = r, log_id = uuids st (drawn st), timestamp = clock st,
                         processed = False, log_content = None, name = None,
                         data = Undefined, output_type = None, callId = None\<rparr>
           in (fresh, st\<lparr>logsByIndex := (logsByIndex st)(i \<mapsto> fresh),
                          drawn := drawn st + 1\<rparr>)))"

subsection \<open>pushLogStream: the commit path\<close>

text \<open>
  pushLogStream has no \<open>await\<close>: it runs to its end within the call. The last element
  of an empty array is \<open>undefined\<close>, which is falsy; a record is truthy.
\<close>

definition last_of :: "'a list \<Rightarrow> 'a option" where
  "last_of xs = (if xs = [] then None else Some (last xs))"

definition pushLogStream :: "Log \<Rightarrow> bool \<Rightarrow> dispatcher \<Rightarrow> dispatcher" where
  "pushLogStream log dn st =
     (let st1 = (if dn then st\<lparr>chain := chain st @ [log]\<rparr> else st);
          st2 = (if ref log = Thought \<and> dn
                 then st1\<lparr>workingMemory :=
                            (workingMemory st1)\<lparr>thoughts := thoughts (workingMemory st1) @ [log]\<rparr>,
                          logger := logger st1 @ [LogDebug ''agent:think'' ''thought''],
                          hooks := hooks st1 @ [onThinking log]\<rparr>
                 else st1);
          st3 = (if ref log = ActionCall \<and> dn
                 then st2\<lparr>workingMemory :=
                            (workingMemory st2)\<lparr>calls := calls (workingMemory st2) @ [log]\<rparr>\<rparr>
                 else st2);
          st4 = (if ref log = ActionResult \<and> dn
                 then (let st' = st3\<lparr>workingMemory :=
                                       (workingMemory st3)\<lparr>results := results (workingMemory st3) @ [log]\<rparr>\<rparr>
                       in case last_of (thoughts (workingMemory st')) of
                            None \<Rightarrow> st'
                          | Some lastThought \<Rightarrow>
                              (case last_of (calls (workingMemory st')) of
                                 None \<Rightarrow> st'
                               | Some lastActionCall \<Rightarrow>
                                   if generateMemories st'
                                   then st'\<lparr>episodes := episodes st' @ [(lastThought, lastActionCall, log)],
                                           suspended := suspended st' @ [AwaitEpisode]\<rparr>
                                   else st'))
                 else st3)
      in st4\<lparr>hooks := hooks st4 @ [onLogStream log dn]\<rparr>)"

subsection \<open>Action calls\<close>

text \<open>
  handleActionCallStream up to its \<open>await\<close>: a partial update goes to pushLogStream; a
  final one calls prepareActionCall and suspends.
\<close>

definition handleActionCallStream :: "Log \<Rightarrow> bool \<Rightarrow> dispatcher \<Rightarrow> dispatcher" where
  "handleActionCallStream call dn st =
     (if \<not> dn then pushLogStream call False st
      else st\<lparr>suspended := suspended st @ [AwaitPrepare call]\<rparr>)"

text \<open>
  How an awaited promise settles. The collaborators (prepareActionCall,
  handleActionCall, handleOutput, generateEpisode) are not part of the sources under
  study: what they settle with is an input. They are taken not to write to the chain,
  to the working memory or to the dispatcher's own state, and the hooks and the logger
  are taken to return normally. handleOutput returns one record or an array; the list
  is what the loop of handleOutputStream runs over.
\<close>

datatype 'e settlement =
    Prepared | PrepareFailed 'e
  | ActionDone Log | ActionFailed 'e
  | OutputDone "Log list" | OutputFailed 'e
  | EpisodeDone | EpisodeFailed 'e

text \<open>
  handleActionCallStream after its \<open>await\<close>, once prepareActionCall has resolved: the
  abort check, the commit of the call, the start of the execution.
\<close>

definition handleActionCallStream_resume :: "Log \<Rightarrow> dispatcher \<Rightarrow> dispatcher" where
  "handleActionCallStream_resume call st =
     (if aborted st then st
      else (let st1 = pushLogStream call True st
            in st1\<lparr>actionCalls := actionCalls st1 @ [call],
                    suspended := suspended st1 @ [AwaitAction call]\<rparr>))"

text \<open>
  The \<open>.catch\<close> callback of the promise pushed to \<open>actionCalls\<close>: the result built from
  a failure. \<open>stringify\<close> stands for \<open>JSON.stringify\<close> on the thrown value. The object
  literal evaluates \<open>randomUUIDv7()\<close> first, then \<open>JSON.stringify(err)\<close>; when that
  throws, the callback throws and there is no result (\<open>None\<close>).
\<close>

definition error_result ::
  "('e \<Rightarrow> json_result) \<Rightarrow> Log \<Rightarrow> 'e \<Rightarrow> dispatcher \<Rightarrow> Log option" where
  "error_result stringify call err st =
     (case stringify err of
        JsonThrows \<Rightarrow> None
      | JsonString s \<Rightarrow>
          Some \<lparr>ref = ActionResult, log_id = uuids st (drawn st), timestamp = clock st,
                processed = False, log_content = None, name = name call,
                data = ErrorObject (Some s), output_type = None,
                callId = Some (log_id call)\<rparr>
      | JsonUndefined \<Rightarrow>
          Some \<lparr>ref = ActionResult, log_id = uuids st (drawn st), timestamp = clock st,
                processed = False, log_content = None, name = name call,
                data = ErrorObject None, output_type = None,
                callId = Some (log_id call)\<rparr>)"

text \<open>
  The promise \<open>handleActionCall(...).catch(...).then(...)\<close> once handleActionCall has
  settled: what the promise settles with (\<open>Some res\<close> when it is fulfilled with
  \<open>res\<close>, \<open>None\<close> when it is rejected), and the dispatcher afterwards. When the
  \<open>.catch\<close> callback throws, the \<open>.then\<close> callback is skipped: nothing is committed
  and the promise in \<open>actionCalls\<close> is rejected.
\<close>

definition actionCall_settled ::
  "('e \<Rightarrow> json_result) \<Rightarrow> Log \<Rightarrow> 'e settlement \<Rightarrow> dispatcher \<Rightarrow>
     (Log option \<times> dispatcher) option" where
  "actionCall_settled stringify call outcome st =
     (case outcome of
        ActionDone res \<Rightarrow> Some (Some res, pushLogStream res True st)
      | ActionFailed err \<Rightarrow>
          (case error_result stringify call err st of
             None \<Rightarrow> Some (None, st\<lparr>drawn := drawn st + 1\<rparr>)
           | Some res \<Rightarrow>
               Some (Some res, pushLogStream res True (st\<lparr>drawn := drawn st + 1\<rparr>)))
      | _ \<Rightarrow> None)"

subsection \<open>Outputs\<close>

definition handleOutputStream :: "Log \<Rightarrow> bool \<Rightarrow> dispatcher \<Rightarrow> dispatcher" where
  "handleOutputStream outputRef dn st =
     (if \<not> dn then pushLogStream outputRef False st
      else st\<lparr>suspended := suspended st @ [AwaitOutput outputRef]\<rparr>)"

text \<open>handleOutputStream after its \<open>await\<close>: the loop over the records handleOutput returned.\<close>

fun handleOutputStream_resume :: "Log list \<Rightarrow> dispatcher \<Rightarrow> dispatcher" where
  "handleOutputStream_resume [] st = st"
| "handleOutputStream_resume (r # refs) st =
     handleOutputStream_resume refs
       (pushLogStream r True
          (st\<lparr>logger := logger st @ [LogDebug ''agent:output'' ''Output processed status''],
              workingMemory :=
                (workingMemory st)\<lparr>outputs := outputs (workingMemory st) @ [r]\<rparr>\<rparr>))"

subsection \<open>handler\<close>

text \<open>
  \<open>!el.attributes.type\<close>: a missing attribute and the empty string are falsy.
  \<open>trim\<close> strips the white space of both ends (the ASCII white space characters; the
  others JavaScript strips lie outside the single-byte characters of this model).
\<close>

definition falsy :: "string option \<Rightarrow> bool" where
  "falsy v = (case v of None \<Rightarrow> True | Some s \<Rightarrow> s = [])"

definition is_space :: "char \<Rightarrow> bool" where
  "is_space c = (c \<in> set [CHR 0x09, CHR 0x0A, CHR 0x0B, CHR 0x0C, CHR 0x0D, CHR 0x20])"

definition trim :: "string \<Rightarrow> string" where
  "trim s = rev (dropWhile is_space (rev (dropWhile is_space s)))"

definition handler :: "StackElement \<Rightarrow> dispatcher \<Rightarrow> dispatcher" where
  "handler el st0 =
     (if aborted st0 then st0
      else
        (let st = st0\<lparr>state_index := max (index el) (state_index st0)\<rparr>
         in if tag el = ''think'' \<or> tag el = ''reasoning'' then
              (case getOrCreateRef (index el) Thought st of
                 (r, st1) \<Rightarrow>
                   pushLogStream (r\<lparr>log_content := Some (concat (content el))\<rparr>) (el_done el) st1)
            else if tag el = ''action_call'' then
              (case getOrCreateRef (index el) ActionCall st of
                 (r, st1) \<Rightarrow>
                   handleActionCallStream
                     (r\<lparr>name := attributes el ''name'',
                        log_content := Some (concat (content el)),
                        data := Undefined\<rparr>)
                     (el_done el) st1)
            else if tag el = ''output'' then
              (case getOrCreateRef (index el) Output st of
                 (r, st1) \<Rightarrow>
                   if falsy (attributes el ''type'')
                   then st1\<lparr>logger := logger st1 @
                               [LogError ''agent:output'' ''Missing output type attribute'']\<rparr>
                   else handleOutputStream
                          (r\<lparr>output_type := attributes el ''type'',
                             data := StringData (trim (concat (content el)))\<rparr>)
                          (el_done el) st1)
            else st))"

subsection \<open>The event loop\<close>

text \<open>
  One turn of the event loop runs to completion before the next starts. A turn is: a
  chunk of the text stream, whose events handleChunk hands to \<open>handler\<close> one after the
  other; the abort signal being raised; the clock moving on; or the \<open>k\<close>-th pending
  continuation resuming with what its promise settled with. A rejected
  prepareActionCall or handleOutput rejects the promise of the suspended function,
  which nobody observes: nothing else happens. A turn that names no pending continuation,
  or a settlement of the wrong kind, is not a turn of this program (\<open>None\<close>).
\<close>

datatype 'e turn = Chunk "event list" | Abort | Tick int | Settle nat "'e settlement"

definition resume ::
  "('e \<Rightarrow> json_result) \<Rightarrow> task \<Rightarrow> 'e settlement \<Rightarrow> dispatcher \<Rightarrow> dispatcher option" where
  "resume stringify t outcome st =
     (case (t, outcome) of
        (AwaitPrepare call, Prepared) \<Rightarrow> Some (handleActionCallStream_resume call st)
      | (AwaitPrepare call, PrepareFailed err) \<Rightarrow> Some st
      | (AwaitAction call, ActionDone res) \<Rightarrow>
          map_option snd (actionCall_settled stringify call (ActionDone res) st)
      | (AwaitAction call, ActionFailed err) \<Rightarrow>
          map_option snd (actionCall_settled stringify call (ActionFailed err) st)
      | (AwaitOutput outputRef, OutputDone refs) \<Rightarrow> Some (handleOutputStream_resume refs st)
      | (AwaitOutput outputRef, OutputFailed err) \<Rightarrow> Some st
      | (AwaitEpisode, EpisodeDone) \<Rightarrow> Some st
      | (AwaitEpisode, EpisodeFailed err) \<Rightarrow>
          Some (st\<lparr>logger := logger st @
                      [LogError ''agent:generateEpisode'' ''Failed to generate episode'']\<rparr>)
      | _ \<Rightarrow> None)"

definition turn ::
  "('e \<Rightarrow> json_result) \<Rightarrow> 'e turn \<Rightarrow> stream_state \<times> dispatcher \<Rightarrow>
     (stream_state \<times> dispatcher) option" where
  "turn stringify t s =
     (case t of
        Chunk evs \<Rightarrow> Some (handleChunk handler evs s)
      | Abort \<Rightarrow> Some (fst s, (snd s)\<lparr>aborted := True\<rparr>)
      | Tick now \<Rightarrow> Some (fst s, (snd s)\<lparr>clock := now\<rparr>)
      | Settle k outcome \<Rightarrow>
          (if k < length (suspended (snd s))
           then map_option (Pair (fst s))
                  (resume stringify (suspended (snd s) ! k) outcome
                     ((snd s)\<lparr>suspended :=
                                take k (suspended (snd s)) @ drop (Suc k) (suspended (snd s))\<rparr>))
           else None))"

fun run ::
  "('e \<Rightarrow> json_result) \<Rightarrow> 'e turn list \<Rightarrow> stream_state \<times> dispatcher \<Rightarrow>
     (stream_state \<times> dispatcher) option" where
  "run stringify [] s = Some s"
| "run stringify (t # ts) s =
     (case turn stringify t s of None \<Rightarrow> None | Some s' \<Rightarrow> run stringify ts s')"

text \<open>
  A dispatcher as createContextStreamHandler creates it, over an empty chain and an
  empty working memory.
\<close>

definition createContextStreamHandler :: "bool \<Rightarrow> (nat \<Rightarrow> string) \<Rightarrow> int \<Rightarrow> dispatcher" where
  "createContextStreamHandler gen ids now =
     \<lparr>state_index = 0, logsByIndex = Map.empty, chain = [],
      workingMemory = \<lparr>thoughts = [], calls = [], results = [], outputs = []\<rparr>,
      actionCalls = [], aborted = False, generateMemories = gen, hooks = [], logger = [],
      episodes = [], suspended = [], uuids = ids, drawn = 0, clock = now\<rparr>"

subsection \<open>The records a step emits\<close>

text \<open>
  The records a step of the dispatcher hands out: those it passes to a hook, those it
  gives to a collaborator whose answer it awaits, and those it commits to the chain.
\<close>

fun hook_log :: "hook_call \<Rightarrow> Log" where
  "hook_log (onThinking l) = l"
| "hook_log (onLogStream l dn) = l"

fun task_logs :: "task \<Rightarrow> Log list" where
  "task_logs (AwaitPrepare l) = [l]"
| "task_logs (AwaitAction l) = [l]"
| "task_logs (AwaitOutput l) = [l]"
| "task_logs AwaitEpisode = []"

definition emitted_by :: "dispatcher \<Rightarrow> dispatcher \<Rightarrow> Log list" where
  "emitted_by st st' =
     map hook_log (drop (length (hooks st)) (hooks st')) @
     concat (map task_logs (drop (length (suspended st)) (suspended st'))) @
     drop (length (chain st)) (chain st')"

text \<open>
  The final snapshot of a \<open>think\<close> or \<open>reasoning\<close> element: the one update of a
  thought that \<open>handler\<close> passes to pushLogStream with \<open>done\<close> set.
\<close>

definition is_thought_final :: "StackElement \<Rightarrow> bool" where
  "is_thought_final el = (el_done el \<and> (tag el = ''think'' \<or> tag el = ''reasoning''))"

section \<open>Properties of handleStream\<close>









lemma last_call_Nil: "last_call i [] = None"
  by (simp add: last_call_def calls_for_def)













subsection \<open>Creation indices\<close>



subsection \<open>The still-open elements\<close>






subsection \<open>Every update is an update of the latest snapshot\<close>



subsection \<open>Counting the invocations of one element\<close>






subsection \<open>Indices over a run\<close>


subsection \<open>The counter as a JavaScript number\<close>










text \<open>While the counter stays within the safe integers the two loops agree.\<close>

lemma handleEvent_counter:
  "counter (fst (handleEvent fn ev (st, s))) = counter st + (if is_Start ev then 1 else 0)"
  by (cases ev) (auto simp: Let_def split: option.splits)













section \<open>Properties of the dispatcher\<close>

subsection \<open>pushLogStream\<close>


lemma pushLogStream_False:
  "pushLogStream log False st = st\<lparr>hooks := hooks st @ [onLogStream log False]\<rparr>"
  by (simp add: pushLogStream_def)

lemma pushLogStream_chain:
  "chain (pushLogStream log dn st) = chain st @ (if dn then [log] else [])"
  by (simp add: pushLogStream_def Let_def split: option.splits)

lemma pushLogStream_thoughts:
  "thoughts (workingMemory (pushLogStream log dn st)) =
     thoughts (workingMemory st) @ (if dn \<and> ref log = Thought then [log] else [])"
  by (simp add: pushLogStream_def Let_def split: option.splits)

lemma pushLogStream_calls:
  "calls (workingMemory (pushLogStream log dn st)) =
     calls (workingMemory st) @ (if dn \<and> ref log = ActionCall then [log] else [])"
  by (simp add: pushLogStream_def Let_def split: option.splits)

lemma pushLogStream_results:
  "results (workingMemory (pushLogStream log dn st)) =
     results (workingMemory st) @ (if dn \<and> ref log = ActionResult then [log] else [])"
  by (simp add: pushLogStream_def Let_def split: option.splits)

lemma pushLogStream_outputs:
  "outputs (workingMemory (pushLogStream log dn st)) = outputs (workingMemory st)"
  by (simp add: pushLogStream_def Let_def split: option.splits)

lemma pushLogStream_frame:
  "logsByIndex (pushLogStream log dn st) = logsByIndex st"
  "state_index (pushLogStream log dn st) = state_index st"
  "aborted (pushLogStream log dn st) = aborted st"
  "generateMemories (pushLogStream log dn st) = generateMemories st"
  "actionCalls (pushLogStream log dn st) = actionCalls st"
  "uuids (pushLogStream log dn st) = uuids st"
  "drawn (pushLogStream log dn st) = drawn st"
  "clock (pushLogStream log dn st) = clock st"
  by (simp_all add: pushLogStream_def Let_def split: option.splits)

lemma pushLogStream_hooks:
  "hooks (pushLogStream log dn st) =
     hooks st @ (if dn \<and> ref log = Thought then [onThinking log] else []) @ [onLogStream log dn]"
  by (simp add: pushLogStream_def Let_def split: option.splits)

lemma pushLogStream_episodes:
  "episodes (pushLogStream log dn st) =
     (if dn \<and> ref log = ActionResult \<and> thoughts (workingMemory st) \<noteq> [] \<and>
         calls (workingMemory st) \<noteq> [] \<and> generateMemories st
      then episodes st @ [(last (thoughts (workingMemory st)), last (calls (workingMemory st)), log)]
      else episodes st)"
  by (simp add: pushLogStream_def Let_def last_of_def split: option.splits)

lemma pushLogStream_suspended:
  "suspended (pushLogStream log dn st) =
     (if dn \<and> ref log = ActionResult \<and> thoughts (workingMemory st) \<noteq> [] \<and>
         calls (workingMemory st) \<noteq> [] \<and> generateMemories st
      then suspended st @ [AwaitEpisode]
      else suspended st)"
  by (simp add: pushLogStream_def Let_def last_of_def split: option.splits)


lemma outputs_resume_chain:
  "chain (handleOutputStream_resume refs st) = chain st @ refs"
  by (induction refs arbitrary: st) (simp_all add: pushLogStream_chain)

lemma outputs_resume_outputs:
  "outputs (workingMemory (handleOutputStream_resume refs st)) = outputs (workingMemory st) @ refs"
  by (induction refs arbitrary: st) (simp_all add: pushLogStream_outputs)

lemma push_all_chain:
  "chain (foldl (\<lambda>s u. pushLogStream (fst u) (snd u) s) st ups) =
     chain st @ map fst (filter snd ups)"
  by (induction ups arbitrary: st) (simp_all add: pushLogStream_chain)

lemma push_all_thoughts:
  "thoughts (workingMemory (foldl (\<lambda>s u. pushLogStream (fst u) (snd u) s) st ups)) =
     thoughts (workingMemory st) @ filter (\<lambda>l. ref l = Thought) (map fst (filter snd ups))"
  by (induction ups arbitrary: st) (simp_all add: pushLogStream_thoughts)

lemma push_all_calls:
  "calls (workingMemory (foldl (\<lambda>s u. pushLogStream (fst u) (snd u) s) st ups)) =
     calls (workingMemory st) @ filter (\<lambda>l. ref l = ActionCall) (map fst (filter snd ups))"
  by (induction ups arbitrary: st) (simp_all add: pushLogStream_calls)

lemma push_all_results:
  "results (workingMemory (foldl (\<lambda>s u. pushLogStream (fst u) (snd u) s) st ups)) =
     results (workingMemory st) @ filter (\<lambda>l. ref l = ActionResult) (map fst (filter snd ups))"
  by (induction ups arbitrary: st) (simp_all add: pushLogStream_results)

subsection \<open>getOrCreateRef and handler\<close>

lemma getOrCreateRef_stored:
  "logsByIndex st i = Some p \<Longrightarrow> getOrCreateRef i r st = (p, st)"
  by (simp add: getOrCreateRef_def)

lemma getOrCreateRef_fresh:
  "logsByIndex st i = None \<Longrightarrow>
     getOrCreateRef i r st =
       (\<lparr>ref = r, log_id = uuids st (drawn st), timestamp = clock st, processed = False,
         log_content = None, name = None, data = Undefined, output_type = None, callId = None\<rparr>,
        st\<lparr>logsByIndex := (logsByIndex st)(i \<mapsto>
              \<lparr>ref = r, log_id = uuids st (drawn st), timestamp = clock st, processed = False,
               log_content = None, name = None, data = Undefined, output_type = None,
               callId = None\<rparr>),
           drawn := drawn st + 1\<rparr>)"
  by (simp add: getOrCreateRef_def Let_def)

lemma getOrCreateRef_result:
  assumes "getOrCreateRef i r st = (p, st')"
  shows "logsByIndex st' i = Some p"
    and "logsByIndex st j = Some q \<Longrightarrow> logsByIndex st' j = Some q"
    and "chain st' = chain st" "workingMemory st' = workingMemory st" "hooks st' = hooks st"
    and "suspended st' = suspended st" "logger st' = logger st" "episodes st' = episodes st"
    and "aborted st' = aborted st" "uuids st' = uuids st" "clock st' = clock st"
    and "generateMemories st' = generateMemories st" "actionCalls st' = actionCalls st"
    and "state_index st' = state_index st"
    and "case logsByIndex st i of
           Some q \<Rightarrow> p = q \<and> drawn st' = drawn st
         | None \<Rightarrow> log_id p = uuids st (drawn st) \<and> timestamp p = clock st \<and>
                     processed p = False \<and> ref p = r \<and> drawn st' = drawn st + 1"
  using assms by (auto simp: getOrCreateRef_def Let_def split: option.splits)

lemma handleActionCallStream_frame:
  "logsByIndex (handleActionCallStream call dn st) = logsByIndex st"
  "drawn (handleActionCallStream call dn st) = drawn st"
  "chain (handleActionCallStream call dn st) = chain st"
  "workingMemory (handleActionCallStream call dn st) = workingMemory st"
  "hooks (handleActionCallStream call dn st) =
     hooks st @ (if dn then [] else [onLogStream call False])"
  "suspended (handleActionCallStream call dn st) =
     suspended st @ (if dn then [AwaitPrepare call] else [])"
  "logger (handleActionCallStream call dn st) = logger st"
  by (simp_all add: handleActionCallStream_def pushLogStream_False)

lemma handleOutputStream_frame:
  "logsByIndex (handleOutputStream outputRef dn st) = logsByIndex st"
  "drawn (handleOutputStream outputRef dn st) = drawn st"
  "chain (handleOutputStream outputRef dn st) = chain st"
  "workingMemory (handleOutputStream outputRef dn st) = workingMemory st"
  "hooks (handleOutputStream outputRef dn st) =
     hooks st @ (if dn then [] else [onLogStream outputRef False])"
  "suspended (handleOutputStream outputRef dn st) =
     suspended st @ (if dn then [AwaitOutput outputRef] else [])"
  "logger (handleOutputStream outputRef dn st) = logger st"
  by (simp_all add: handleOutputStream_def pushLogStream_False)

text \<open>handler, branch by branch, for a signal that is not aborted.\<close>

lemma handler_aborted: "aborted st \<Longrightarrow> handler el st = st"
  by (simp add: handler_def)

lemma handler_think:
  assumes "\<not> aborted st" "tag el = ''think'' \<or> tag el = ''reasoning''"
    and "getOrCreateRef (index el) Thought (st\<lparr>state_index := max (index el) (state_index st)\<rparr>) = (r, st1)"
  shows "handler el st =
           pushLogStream (r\<lparr>log_content := Some (concat (content el))\<rparr>) (el_done el) st1"
  using assms by (auto simp: handler_def Let_def)

lemma handler_action_call:
  assumes "\<not> aborted st" "tag el = ''action_call''"
    and "getOrCreateRef (index el) ActionCall (st\<lparr>state_index := max (index el) (state_index st)\<rparr>) = (r, st1)"
  shows "handler el st =
           handleActionCallStream
             (r\<lparr>name := attributes el ''name'', log_content := Some (concat (content el)),
                data := Undefined\<rparr>) (el_done el) st1"
  using assms by (simp add: handler_def Let_def)

lemma handler_output:
  assumes "\<not> aborted st" "tag el = ''output''"
    and "getOrCreateRef (index el) Output (st\<lparr>state_index := max (index el) (state_index st)\<rparr>) = (r, st1)"
  shows "handler el st =
           (if falsy (attributes el ''type'')
            then st1\<lparr>logger := logger st1 @
                        [LogError ''agent:output'' ''Missing output type attribute'']\<rparr>
            else handleOutputStream
                   (r\<lparr>output_type := attributes el ''type'',
                      data := StringData (trim (concat (content el)))\<rparr>) (el_done el) st1)"
  using assms by (simp add: handler_def Let_def)

lemma handler_other:
  assumes "\<not> aborted st" "tag el \<noteq> ''think''" "tag el \<noteq> ''reasoning''"
    "tag el \<noteq> ''action_call''" "tag el \<noteq> ''output''"
  shows "handler el st = st\<lparr>state_index := max (index el) (state_index st)\<rparr>"
  using assms by (simp add: handler_def Let_def)


subsection \<open>Stored records are never replaced\<close>

lemma handler_keeps:
  assumes "logsByIndex st j = Some q"
  shows "logsByIndex (handler el st) j = Some q"
proof (cases "aborted st")
  case True
  then show ?thesis using assms by (simp add: handler_aborted)
next
  case False
  let ?st = "st\<lparr>state_index := max (index el) (state_index st)\<rparr>"
  have q: "logsByIndex ?st j = Some q" using assms by simp
  consider (think) "tag el = ''think'' \<or> tag el = ''reasoning''"
    | (call) "tag el = ''action_call''"
    | (out) "tag el = ''output''"
    | (other) "tag el \<noteq> ''think''" "tag el \<noteq> ''reasoning''" "tag el \<noteq> ''action_call''"
        "tag el \<noteq> ''output''"
    by blast
  then show ?thesis
  proof cases
    case think
    obtain r st1 where g: "getOrCreateRef (index el) Thought ?st = (r, st1)"
      by (cases "getOrCreateRef (index el) Thought ?st")
    show ?thesis
      using getOrCreateRef_result(2) [OF g q]
      by (simp add: handler_think [OF False think g] pushLogStream_frame)
  next
    case call
    obtain r st1 where g: "getOrCreateRef (index el) ActionCall ?st = (r, st1)"
      by (cases "getOrCreateRef (index el) ActionCall ?st")
    show ?thesis
      using getOrCreateRef_result(2) [OF g q]
      by (simp add: handler_action_call [OF False call g] handleActionCallStream_frame)
  next
    case out
    obtain r st1 where g: "getOrCreateRef (index el) Output ?st = (r, st1)"
      by (cases "getOrCreateRef (index el) Output ?st")
    show ?thesis
      using getOrCreateRef_result(2) [OF g q]
      by (simp add: handler_output [OF False out g] handleOutputStream_frame)
  next
    case other
    then show ?thesis using assms by (simp add: handler_other [OF False])
  qed
qed

lemma handleEvent_handler_cases:
  "snd (handleEvent handler ev (ss, d)) = d \<or>
   (\<exists>el. snd (handleEvent handler ev (ss, d)) = handler el d)"
  by (cases ev) (auto simp: Let_def split: option.splits)

lemma handleChunk_handler_pres:
  assumes step: "\<And>el d. P d \<Longrightarrow> P (handler el d)" and init: "P d"
  shows "P (snd (handleChunk handler evs (ss, d)))"
  using init
proof (induction evs arbitrary: ss d)
  case Nil
  then show ?case by (simp add: handleChunk_def)
next
  case (Cons ev evs)
  obtain ss' d' where e: "handleEvent handler ev (ss, d) = (ss', d')"
    by (cases "handleEvent handler ev (ss, d)")
  with handleEvent_handler_cases [of ev ss d] have "d' = d \<or> (\<exists>el. d' = handler el d)"
    by simp
  with Cons.prems step have "P d'" by auto
  from Cons.IH [OF this, of ss'] show ?case by (simp add: handleChunk_def e)
qed

lemma handleOutputStream_resume_logs:
  "logsByIndex (handleOutputStream_resume refs st) = logsByIndex st"
  by (induction refs arbitrary: st) (simp_all add: pushLogStream_frame)

lemma resume_logs:
  assumes "resume stringify t outcome st = Some st'"
  shows "logsByIndex st' = logsByIndex st"
  using assms
  by (cases t; cases outcome)
     (auto simp: resume_def handleActionCallStream_resume_def actionCall_settled_def Let_def
        pushLogStream_frame handleOutputStream_resume_logs split: option.splits)

lemma turn_keeps:
  assumes "turn stringify t (ss, d) = Some s'" "logsByIndex d j = Some q"
  shows "logsByIndex (snd s') j = Some q"
proof (cases t)
  case (Chunk evs)
  with assms(1) have "s' = handleChunk handler evs (ss, d)" by (simp add: turn_def)
  then show ?thesis
    using handleChunk_handler_pres [of "\<lambda>d. logsByIndex d j = Some q" d evs ss]
      handler_keeps assms(2) by simp
next
  case Abort
  with assms show ?thesis by (auto simp: turn_def)
next
  case (Tick now)
  with assms show ?thesis by (auto simp: turn_def)
next
  case (Settle k outcome)
  with assms(1) obtain d' where
    r: "resume stringify (suspended d ! k) outcome
          (d\<lparr>suspended := take k (suspended d) @ drop (Suc k) (suspended d)\<rparr>) = Some d'"
    and s': "s' = (ss, d')"
    by (auto simp: turn_def split: if_splits)
  from resume_logs [OF r] assms(2) s' show ?thesis by simp
qed

lemma run_keeps:
  assumes "run stringify ts s = Some s'" "logsByIndex (snd s) j = Some q"
  shows "logsByIndex (snd s') j = Some q"
  using assms
proof (induction ts arbitrary: s)
  case Nil
  then show ?case by simp
next
  case (Cons t ts)
  from Cons.prems(1) obtain s1 where t: "turn stringify t s = Some s1"
    and r: "run stringify ts s1 = Some s'"
    by (auto split: option.splits)
  from turn_keeps [of stringify t "fst s" "snd s" s1 j q] t Cons.prems(2)
  have "logsByIndex (snd s1) j = Some q" by simp
  from Cons.IH [OF r this] show ?case .
qed


lemma emitted_by_pushLogStream:
  assumes "hooks st1 = hooks st" "suspended st1 = suspended st" "chain st1 = chain st"
  shows "set (emitted_by st (pushLogStream log dn st1)) \<subseteq> {log}"
  using assms
  by (auto simp: emitted_by_def pushLogStream_hooks pushLogStream_suspended pushLogStream_chain)

lemma emitted_by_handleActionCallStream:
  assumes "hooks st1 = hooks st" "suspended st1 = suspended st" "chain st1 = chain st"
  shows "set (emitted_by st (handleActionCallStream call dn st1)) \<subseteq> {call}"
  using assms by (auto simp: emitted_by_def handleActionCallStream_frame)

lemma emitted_by_handleOutputStream:
  assumes "hooks st1 = hooks st" "suspended st1 = suspended st" "chain st1 = chain st"
  shows "set (emitted_by st (handleOutputStream outputRef dn st1)) \<subseteq> {outputRef}"
  using assms by (auto simp: emitted_by_def handleOutputStream_frame)

lemma handler_allocates:
  assumes na: "\<not> aborted st"
    and tg: "tag el \<in> {''think'', ''reasoning'', ''action_call'', ''output''}"
  shows "\<exists>p. logsByIndex (handler el st) (index el) = Some p \<and>
           (case logsByIndex st (index el) of
              Some q \<Rightarrow> p = q \<and> drawn (handler el st) = drawn st
            | None \<Rightarrow> log_id p = uuids st (drawn st) \<and> timestamp p = clock st \<and>
                        processed p = False \<and> drawn (handler el st) = drawn st + 1) \<and>
           (\<forall>l\<in>set (emitted_by st (handler el st)).
              log_id l = log_id p \<and> timestamp l = timestamp p \<and> processed l = processed p)"
proof -
  let ?st = "st\<lparr>state_index := max (index el) (state_index st)\<rparr>"
  from tg consider (think) "tag el = ''think'' \<or> tag el = ''reasoning''"
    | (call) "tag el = ''action_call''"
    | (out) "tag el = ''output''"
    by auto
  then show ?thesis
  proof cases
    case think
    obtain r st1 where g: "getOrCreateRef (index el) Thought ?st = (r, st1)"
      by (cases "getOrCreateRef (index el) Thought ?st")
    note h = handler_think [OF na think g]
    note f = getOrCreateRef_result [OF g]
    have a: "logsByIndex (handler el st) (index el) = Some r"
      using f(1) by (simp add: h pushLogStream_frame)
    have b: "case logsByIndex st (index el) of
              Some q \<Rightarrow> r = q \<and> drawn (handler el st) = drawn st
            | None \<Rightarrow> log_id r = uuids st (drawn st) \<and> timestamp r = clock st \<and>
                        processed r = False \<and> drawn (handler el st) = drawn st + 1"
      using f(15) by (simp add: h pushLogStream_frame split: option.splits)
    have "set (emitted_by st (handler el st)) \<subseteq> {r\<lparr>log_content := Some (concat (content el))\<rparr>}"
      unfolding h using f by (intro emitted_by_pushLogStream) simp_all
    then have c: "\<forall>l\<in>set (emitted_by st (handler el st)).
              log_id l = log_id r \<and> timestamp l = timestamp r \<and> processed l = processed r"
      by auto
    from a b c show ?thesis by blast
  next
    case call
    obtain r st1 where g: "getOrCreateRef (index el) ActionCall ?st = (r, st1)"
      by (cases "getOrCreateRef (index el) ActionCall ?st")
    note h = handler_action_call [OF na call g]
    note f = getOrCreateRef_result [OF g]
    have a: "logsByIndex (handler el st) (index el) = Some r"
      using f(1) by (simp add: h handleActionCallStream_frame)
    have b: "case logsByIndex st (index el) of
              Some q \<Rightarrow> r = q \<and> drawn (handler el st) = drawn st
            | None \<Rightarrow> log_id r = uuids st (drawn st) \<and> timestamp r = clock st \<and>
                        processed r = False \<and> drawn (handler el st) = drawn st + 1"
      using f(15) by (simp add: h handleActionCallStream_frame split: option.splits)
    have "set (emitted_by st (handler el st)) \<subseteq>
        {r\<lparr>name := attributes el ''name'', log_content := Some (concat (content el)),
           data := Undefined\<rparr>}"
      unfolding h using f by (intro emitted_by_handleActionCallStream) simp_all
    then have c: "\<forall>l\<in>set (emitted_by st (handler el st)).
              log_id l = log_id r \<and> timestamp l = timestamp r \<and> processed l = processed r"
      by auto
    from a b c show ?thesis by blast
  next
    case out
    obtain r st1 where g: "getOrCreateRef (index el) Output ?st = (r, st1)"
      by (cases "getOrCreateRef (index el) Output ?st")
    note h = handler_output [OF na out g]
    note f = getOrCreateRef_result [OF g]
    have a: "logsByIndex (handler el st) (index el) = Some r"
      using f(1) by (simp add: h handleOutputStream_frame)
    have b: "case logsByIndex st (index el) of
              Some q \<Rightarrow> r = q \<and> drawn (handler el st) = drawn st
            | None \<Rightarrow> log_id r = uuids st (drawn st) \<and> timestamp r = clock st \<and>
                        processed r = False \<and> drawn (handler el st) = drawn st + 1"
      using f(15) by (simp add: h handleOutputStream_frame split: option.splits)
    have "set (emitted_by st (handler el st)) \<subseteq>
        {r\<lparr>output_type := attributes el ''type'',
           data := StringData (trim (concat (content el)))\<rparr>}"
    proof (cases "falsy (attributes el ''type'')")
      case True
      then show ?thesis unfolding h using f by (simp add: emitted_by_def)
    next
      case False
      then show ?thesis unfolding h using f
        by (simp only: if_False) (intro emitted_by_handleOutputStream; simp)
    qed
    then have c: "\<forall>l\<in>set (emitted_by st (handler el st)).
              log_id l = log_id r \<and> timestamp l = timestamp r \<and> processed l = processed r"
      by auto
    from a b c show ?thesis by blast
  qed
qed

text \<open>
  Claim C9, as stated, fails when the agent's memory has \<open>generateMemories\<close> off: the
  working memory holds a thought and an action call, an action result is committed, and
  generateEpisode is not called.
\<close>

theorem episode_needs_generateMemories_counterexample:
  "thoughts (workingMemory
     \<lparr>state_index = 1, logsByIndex = Map.empty,
      chain = [],
      workingMemory =
        \<lparr>thoughts = [\<lparr>ref = Thought, log_id = ''t'', timestamp = 1, processed = False,
                       log_content = Some ''plan'', name = None, data = Undefined,
                       output_type = None, callId = None\<rparr>],
         calls = [\<lparr>ref = ActionCall, log_id = ''c'', timestamp = 2, processed = False,
                    log_content = Some ''{}'', name = Some ''foo'', data = Undefined,
                    output_type = None, callId = None\<rparr>],
         results = [], outputs = []\<rparr>,
      actionCalls = [], aborted = False, generateMemories = False, hooks = [], logger = [],
      episodes = [], suspended = [], uuids = (\<lambda>n. ''u''), drawn = 2, clock = 3\<rparr>) \<noteq> [] \<and>
   calls (workingMemory
     \<lparr>state_index = 1, logsByIndex = Map.empty,
      chain = [],
      workingMemory =
        \<lparr>thoughts = [\<lparr>ref = Thought, log_id = ''t'', timestamp = 1, processed = False,
                       log_content = Some ''plan'', name = None, data = Undefined,
                       output_type = None, callId = None\<rparr>],
         calls = [\<lparr>ref = ActionCall, log_id = ''c'', timestamp = 2, processed = False,
                    log_content = Some ''{}'', name = Some ''foo'', data = Undefined,
                    output_type = None, callId = None\<rparr>],
         results = [], outputs = []\<rparr>,
      actionCalls = [], aborted = False, generateMemories = False, hooks = [], logger = [],
      episodes = [], suspended = [], uuids = (\<lambda>n. ''u''), drawn = 2, clock = 3\<rparr>) \<noteq> [] \<and>
   episodes (pushLogStream
     \<lparr>ref = ActionResult, log_id = ''r'', timestamp = 3, processed = False,
      log_content = None, name = Some ''foo'', data = OtherData ''42'',
      output_type = None, callId = Some ''c''\<rparr> True
     \<lparr>state_index = 1, logsByIndex = Map.empty,
      chain = [],
      workingMemory =
        \<lparr>thoughts = [\<lparr>ref = Thought, log_id = ''t'', timestamp = 1, processed = False,
                       log_content = Some ''plan'', name = None, data = Undefined,
                       output_type = None, callId = None\<rparr>],
         calls = [\<lparr>ref = ActionCall, log_id = ''c'', timestamp = 2, processed = False,
                    log_content = Some ''{}'', name = Some ''foo'', data = Undefined,
                    output_type = None, callId = None\<rparr>],
         results = [], outputs = []\<rparr>,
      actionCalls = [], aborted = False, generateMemories = False, hooks = [], logger = [],
      episodes = [], suspended = [], uuids = (\<lambda>n. ''u''), drawn = 2, clock = 3\<rparr>) = [] \<and>
   results (workingMemory (pushLogStream
     \<lparr>ref = ActionResult, log_id = ''r'', timestamp = 3, processed = False,
      log_content = None, name = Some ''foo'', data = OtherData ''42'',
      output_type = None, callId = Some ''c''\<rparr> True
     \<lparr>state_index = 1, logsByIndex = Map.empty,
      chain = [],
      workingMemory =
        \<lparr>thoughts = [\<lparr>ref = Thought, log_id = ''t'', timestamp = 1, processed = False,
                       log_content = Some ''plan'', name = None, data = Undefined,
                       output_type = None, callId = None\<rparr>],
         calls = [\<lparr>ref = ActionCall, log_id = ''c'', timestamp = 2, processed = False,
                    log_content = Some ''{}'', name = Some ''foo'', data = Undefined,
                    output_type = None, callId = None\<rparr>],
         results = [], outputs = []\<rparr>,
      actionCalls = [], aborted = False, generateMemories = False, hooks = [], logger = [],
      episodes = [], suspended = [], uuids = (\<lambda>n. ''u''), drawn = 2, clock = 3\<rparr>)) =
     [\<lparr>ref = ActionResult, log_id = ''r'', timestamp = 3, processed = False,
      log_content = None, name = Some ''foo'', data = OtherData ''42'',
      output_type = None, callId = Some ''c''\<rparr>]"
  by (simp add: pushLogStream_def Let_def last_of_def)

text \<open>
  Claim C9, amended. When an action result is committed, generateEpisode is called if and
  only if the working memory already holds a thought and an action call and
  \<open>generateMemories\<close> is on; it gets the last thought, the last call and the result.
  The record is committed either way. When the episode's promise settles, a success
  changes nothing and a failure adds one logger error and nothing else: no new call, no
  pending work, no change of the chain, of the working memory or of the hooks.
\<close>

theorem episode_trigger:
  assumes "ref log = ActionResult"
  shows "episodes (pushLogStream log True st) =
           (if thoughts (workingMemory st) \<noteq> [] \<and> calls (workingMemory st) \<noteq> [] \<and>
               generateMemories st
            then episodes st @
                   [(last (thoughts (workingMemory st)), last (calls (workingMemory st)), log)]
            else episodes st) \<and>
         suspended (pushLogStream log True st) =
           (if thoughts (workingMemory st) \<noteq> [] \<and> calls (workingMemory st) \<noteq> [] \<and>
               generateMemories st
            then suspended st @ [AwaitEpisode]
            else suspended st) \<and>
         chain (pushLogStream log True st) = chain st @ [log] \<and>
         results (workingMemory (pushLogStream log True st)) = results (workingMemory st) @ [log] \<and>
         resume stringify AwaitEpisode EpisodeDone st = Some st \<and>
         resume stringify AwaitEpisode (EpisodeFailed err) st =
           Some (st\<lparr>logger := logger st @
                        [LogError ''agent:generateEpisode'' ''Failed to generate episode'']\<rparr>)"
  using assms
  by (simp add: pushLogStream_episodes pushLogStream_suspended pushLogStream_chain
      pushLogStream_results resume_def)

theorem episode_trigger_witness:
  "ref \<lparr>ref = ActionResult, log_id = ''r'', timestamp = 3, processed = False,
      log_content = None, name = Some ''foo'', data = OtherData ''42'',
      output_type = None, callId = Some ''c''\<rparr> = ActionResult \<and>
   episodes (pushLogStream
     \<lparr>ref = ActionResult, log_id = ''r'', timestamp = 3, processed = False,
      log_content = None, name = Some ''foo'', data = OtherData ''42'',
      output_type = None, callId = Some ''c''\<rparr> True
     \<lparr>state_index = 1, logsByIndex = Map.empty,
      chain = [],
      workingMemory =
        \<lparr>thoughts = [\<lparr>ref = Thought, log_id = ''t'', timestamp = 1, processed = False,
                       log_content = Some ''plan'', name = None, data = Undefined,
                       output_type = None, callId = None\<rparr>],
         calls = [\<lparr>ref = ActionCall, log_id = ''c'', timestamp = 2, processed = False,
                    log_content = Some ''{}'', name = Some ''foo'', data = Undefined,
                    output_type = None, callId = None\<rparr>],
         results = [], outputs = []\<rparr>,
      actionCalls = [], aborted = False, generateMemories = True, hooks = [], logger = [],
      episodes = [], suspended = [], uuids = (\<lambda>n. ''u''), drawn = 2, clock = 3\<rparr>) =
     [(\<lparr>ref = Thought, log_id = ''t'', timestamp = 1, processed = False,
        log_content = Some ''plan'', name = None, data = Undefined,
        output_type = None, callId = None\<rparr>,
       \<lparr>ref = ActionCall, log_id = ''c'', timestamp = 2, processed = False,
        log_content = Some ''{}'', name = Some ''foo'', data = Undefined,
        output_type = None, callId = None\<rparr>,
       \<lparr>ref = ActionResult, log_id = ''r'', timestamp = 3, processed = False,
        log_content = None, name = Some ''foo'', data = OtherData ''42'',
        output_type = None, callId = Some ''c''\<rparr>)]"
proof -
  let ?r = "\<lparr>ref = ActionResult, log_id = ''r'', timestamp = 3, processed = False,
      log_content = None, name = Some ''foo'', data = OtherData ''42'',
      output_type = None, callId = Some ''c''\<rparr>"
  have a: "ref ?r = ActionResult" by simp
  show ?thesis
    using episode_trigger [OF a, of _ "\<lambda>e::unit. JsonString []" "()"] by simp
qed

subsection \<open>Settled actions\<close>

lemma actionCall_settled_failed:
  "actionCall_settled stringify call (ActionFailed err) st =
     (case error_result stringify call err st of
        None \<Rightarrow> Some (None, st\<lparr>drawn := drawn st + 1\<rparr>)
      | Some res \<Rightarrow> Some (Some res, pushLogStream res True (st\<lparr>drawn := drawn st + 1\<rparr>)))"
  by (simp add: actionCall_settled_def)

lemma actionCall_settled_done:
  "actionCall_settled stringify call (ActionDone res) st =
     Some (Some res, pushLogStream res True st)"
  by (simp add: actionCall_settled_def)

lemma turn_Settle:
  assumes "k < length (suspended d)"
  shows "turn stringify (Settle k outcome) (ss, d) =
           map_option (Pair ss)
             (resume stringify (suspended d ! k) outcome
                (d\<lparr>suspended := take k (suspended d) @ drop (Suc k) (suspended d)\<rparr>))"
  using assms by (simp add: turn_def)

lemma resume_action:
  "resume stringify (AwaitAction call) (ActionFailed err) st =
     map_option snd (actionCall_settled stringify call (ActionFailed err) st)"
  "resume stringify (AwaitAction call) (ActionDone res) st =
     map_option snd (actionCall_settled stringify call (ActionDone res) st)"
  by (simp_all add: resume_def)

subsection \<open>Cancellation\<close>

lemma handleChunk_aborted:
  assumes "aborted d"
  shows "snd (handleChunk handler evs (ss, d)) = d"
  using handleChunk_handler_pres [of "\<lambda>x. x = d" d evs ss] assms
  by (simp add: handler_aborted)

subsection \<open>Action calls: when the call and its result are committed\<close>

text \<open>
  Claim C5, as stated, fails when a later element closes in the same chunk. The chunk
  \<open><action_call name="foo">{}</action_call><think>hm</think>\<close> dispatches the final
  update of the call first, but handleActionCallStream suspends at
  \<open>await prepareActionCall\<close> before it commits; the rest of the chunk runs on, the
  thought is committed, and the call follows it in the chain once the continuation runs.
\<close>

theorem call_commit_is_deferred_counterexample:
  "map_option (\<lambda>s. map (\<lambda>l. (ref l, log_content l)) (chain (snd s)))
     (run (\<lambda>e::unit. JsonString [])
        [Chunk [Start ''action_call'' [''name'' \<mapsto> ''foo''], Text ''{}'', End,
                Start ''think'' Map.empty, Text ''hm'', End]]
        (initial_stream 0, createContextStreamHandler False (\<lambda>n. ''u'') 0)) =
     Some [(Thought, Some ''hm'')] \<and>
   map_option (\<lambda>s. map (\<lambda>l. (ref l, log_content l)) (chain (snd s)))
     (run (\<lambda>e::unit. JsonString [])
        [Chunk [Start ''action_call'' [''name'' \<mapsto> ''foo''], Text ''{}'', End,
                Start ''think'' Map.empty, Text ''hm'', End],
         Settle 0 Prepared]
        (initial_stream 0, createContextStreamHandler False (\<lambda>n. ''u'') 0)) =
     Some [(Thought, Some ''hm''), (ActionCall, Some ''{}'')]"
  by (simp add: turn_def resume_def handleActionCallStream_resume_def
      handleChunk_def initial_stream_def createContextStreamHandler_def handler_def
      getOrCreateRef_def pushLogStream_def handleActionCallStream_def Let_def)

text \<open>
  Claim C5, amended. The dispatch of an action call's final update commits nothing: it
  leaves the call waiting for prepareActionCall. When that has resolved and the signal
  is not aborted, the call is appended to the chain and to the calls of the working
  memory in the same step that starts its execution, hence before its own result.
  Results are committed in the order in which the executions complete: if the execution
  of \<open>c2\<close> completes before that of \<open>c1\<close>, the chain receives \<open>r2\<close> before \<open>r1\<close>,
  whatever the order of the calls.
\<close>

theorem call_commit_and_result_order:
  assumes "\<not> aborted d" and "tag el = ''action_call''" and "el_done el"
    and "ref call = ActionCall"
  shows "chain (handler el d) = chain d \<and> workingMemory (handler el d) = workingMemory d \<and>
         (\<exists>c. suspended (handler el d) = suspended d @ [AwaitPrepare c] \<and>
              name c = attributes el ''name'' \<and> log_content c = Some (concat (content el))) \<and>
         chain (handleActionCallStream_resume call d) = chain d @ [call] \<and>
         calls (workingMemory (handleActionCallStream_resume call d)) =
           calls (workingMemory d) @ [call] \<and>
         suspended (handleActionCallStream_resume call d) = suspended d @ [AwaitAction call] \<and>
         actionCalls (handleActionCallStream_resume call d) = actionCalls d @ [call] \<and>
         (\<exists>d1 d2. resume stringify (AwaitAction c2) (ActionDone r2) d = Some d1 \<and>
                  resume stringify (AwaitAction c1) (ActionDone r1) d1 = Some d2 \<and>
                  chain d2 = chain d @ [r2, r1])"
proof -
  let ?d = "d\<lparr>state_index := max (index el) (state_index d)\<rparr>"
  obtain r st1 where g: "getOrCreateRef (index el) ActionCall ?d = (r, st1)"
    by (cases "getOrCreateRef (index el) ActionCall ?d")
  note h = handler_action_call [OF assms(1,2) g]
  note f = getOrCreateRef_result [OF g]
  let ?c = "r\<lparr>name := attributes el ''name'', log_content := Some (concat (content el)),
               data := Undefined\<rparr>"
  have a: "chain (handler el d) = chain d" "workingMemory (handler el d) = workingMemory d"
    using f by (simp_all add: h handleActionCallStream_frame)
  have "suspended (handler el d) = suspended d @ [AwaitPrepare ?c]"
    using f assms(3) by (simp add: h handleActionCallStream_frame)
  then have b: "\<exists>c. suspended (handler el d) = suspended d @ [AwaitPrepare c] \<and>
              name c = attributes el ''name'' \<and> log_content c = Some (concat (content el))"
    by (intro exI [of _ ?c]) simp
  have c: "chain (handleActionCallStream_resume call d) = chain d @ [call]"
    "calls (workingMemory (handleActionCallStream_resume call d)) = calls (workingMemory d) @ [call]"
    "suspended (handleActionCallStream_resume call d) = suspended d @ [AwaitAction call]"
    "actionCalls (handleActionCallStream_resume call d) = actionCalls d @ [call]"
    using assms(1,4)
    by (simp_all add: handleActionCallStream_resume_def Let_def pushLogStream_chain
        pushLogStream_calls pushLogStream_suspended pushLogStream_frame)
  have e: "\<exists>d1 d2. resume stringify (AwaitAction c2) (ActionDone r2) d = Some d1 \<and>
                  resume stringify (AwaitAction c1) (ActionDone r1) d1 = Some d2 \<and>
                  chain d2 = chain d @ [r2, r1]"
    by (simp add: resume_action actionCall_settled_done pushLogStream_chain)
  from a b c e show ?thesis by blast
qed

theorem call_commit_and_result_order_witness:
  "\<not> aborted (createContextStreamHandler False (\<lambda>n. ''u'') 0) \<and>
   tag \<lparr>index = 0, tag = ''action_call'', attributes = [''name'' \<mapsto> ''foo''],
        content = [''{}''], el_done = True\<rparr> = ''action_call'' \<and>
   el_done \<lparr>index = 0, tag = ''action_call'', attributes = [''name'' \<mapsto> ''foo''],
        content = [''{}''], el_done = True\<rparr> \<and>
   ref \<lparr>ref = ActionCall, log_id = ''u'', timestamp = 0, processed = False,
        log_content = Some ''{}'', name = Some ''foo'', data = Undefined,
        output_type = None, callId = None\<rparr> = ActionCall \<and>
   chain (handler \<lparr>index = 0, tag = ''action_call'', attributes = [''name'' \<mapsto> ''foo''],
        content = [''{}''], el_done = True\<rparr> (createContextStreamHandler False (\<lambda>n. ''u'') 0)) = [] \<and>
   chain (handleActionCallStream_resume
        \<lparr>ref = ActionCall, log_id = ''u'', timestamp = 0, processed = False,
         log_content = Some ''{}'', name = Some ''foo'', data = Undefined,
         output_type = None, callId = None\<rparr>
        (createContextStreamHandler False (\<lambda>n. ''u'') 0)) =
     [\<lparr>ref = ActionCall, log_id = ''u'', timestamp = 0, processed = False,
       log_content = Some ''{}'', name = Some ''foo'', data = Undefined,
       output_type = None, callId = None\<rparr>]"
proof -
  let ?d = "createContextStreamHandler False (\<lambda>n. ''u'') 0"
  let ?el = "\<lparr>index = 0, tag = ''action_call'', attributes = [''name'' \<mapsto> ''foo''],
        content = [''{}''], el_done = True\<rparr>"
  let ?c = "\<lparr>ref = ActionCall, log_id = ''u'', timestamp = 0, processed = False,
        log_content = Some ''{}'', name = Some ''foo'', data = Undefined,
        output_type = None, callId = None\<rparr>"
  have a: "\<not> aborted ?d" by (simp add: createContextStreamHandler_def)
  have b: "tag ?el = ''action_call''" by simp
  have c: "el_done ?el" by simp
  have e: "ref ?c = ActionCall" by simp
  note inst = call_commit_and_result_order [OF a b c e, of "\<lambda>e::unit. JsonString []" ?c ?c ?c ?c]
  from inst have f: "chain (handler ?el ?d) = chain ?d" by (rule conjunct1)
  from inst have g: "chain (handleActionCallStream_resume ?c ?d) = chain ?d @ [?c]" by blast
  have h: "chain ?d = []" by (simp add: createContextStreamHandler_def)
  from a b c e f g h show ?thesis by simp
qed

subsection \<open>Missing required attributes\<close>

text \<open>
  The output half of claim C4: an output element without a \<open>type\<close> attribute is
  dropped with one logged error; nothing is committed, no hook is called and no
  collaborator is invoked.
\<close>

lemma output_without_type_is_dropped:
  assumes "\<not> aborted d" and "tag el = ''output''" and "falsy (attributes el ''type'')"
  shows "chain (handler el d) = chain d \<and> workingMemory (handler el d) = workingMemory d \<and>
         hooks (handler el d) = hooks d \<and> suspended (handler el d) = suspended d \<and>
         actionCalls (handler el d) = actionCalls d \<and>
         logger (handler el d) =
           logger d @ [LogError ''agent:output'' ''Missing output type attribute'']"
proof -
  let ?d = "d\<lparr>state_index := max (index el) (state_index d)\<rparr>"
  obtain r st1 where g: "getOrCreateRef (index el) Output ?d = (r, st1)"
    by (cases "getOrCreateRef (index el) Output ?d")
  note h = handler_output [OF assms(1,2) g]
  note f = getOrCreateRef_result [OF g]
  show ?thesis using f assms(3) by (simp add: h)
qed

text \<open>
  Claim C4, the action_call half, on an element without a \<open>name\<close> attribute. \<open>handler\<close>
  has no check of \<open>name\<close>: the partial update reaches the onLogStream hook, the final
  update calls prepareActionCall with a call whose name is undefined, and logs nothing.
  When prepareActionCall resolves, the call is committed to the chain and to the calls of
  the working memory, and its execution is started. When it rejects, nothing is
  committed, and still no error is logged by the dispatcher.
\<close>

theorem action_call_without_name_is_dispatched:
  "handler \<lparr>index = 0, tag = ''action_call'', attributes = Map.empty, content = [],
            el_done = False\<rparr> (createContextStreamHandler False (\<lambda>n. ''u'') 0) =
     (createContextStreamHandler False (\<lambda>n. ''u'') 0)
       \<lparr>logsByIndex := [0 \<mapsto> \<lparr>ref = ActionCall, log_id = ''u'', timestamp = 0, processed = False,
                               log_content = None, name = None, data = Undefined,
                               output_type = None, callId = None\<rparr>],
        drawn := 1,
        hooks := [onLogStream \<lparr>ref = ActionCall, log_id = ''u'', timestamp = 0, processed = False,
                               log_content = Some [], name = None, data = Undefined,
                               output_type = None, callId = None\<rparr> False]\<rparr> \<and>
   handler \<lparr>index = 0, tag = ''action_call'', attributes = Map.empty, content = [''{}''],
            el_done = True\<rparr> (createContextStreamHandler False (\<lambda>n. ''u'') 0) =
     (createContextStreamHandler False (\<lambda>n. ''u'') 0)
       \<lparr>logsByIndex := [0 \<mapsto> \<lparr>ref = ActionCall, log_id = ''u'', timestamp = 0, processed = False,
                               log_content = None, name = None, data = Undefined,
                               output_type = None, callId = None\<rparr>],
        drawn := 1,
        suspended := [AwaitPrepare \<lparr>ref = ActionCall, log_id = ''u'', timestamp = 0,
                               processed = False, log_content = Some ''{}'', name = None,
                               data = Undefined, output_type = None, callId = None\<rparr>]\<rparr> \<and>
   map_option (\<lambda>s. (chain (snd s), calls (workingMemory (snd s)), suspended (snd s), logger (snd s)))
     (run (\<lambda>e::unit. JsonString [])
        [Chunk [Start ''action_call'' Map.empty, Text ''{}'', End], Settle 0 Prepared]
        (initial_stream 0, createContextStreamHandler False (\<lambda>n. ''u'') 0)) =
     Some ([\<lparr>ref = ActionCall, log_id = ''u'', timestamp = 0, processed = False,
             log_content = Some ''{}'', name = None, data = Undefined,
             output_type = None, callId = None\<rparr>],
           [\<lparr>ref = ActionCall, log_id = ''u'', timestamp = 0, processed = False,
             log_content = Some ''{}'', name = None, data = Undefined,
             output_type = None, callId = None\<rparr>],
           [AwaitAction \<lparr>ref = ActionCall, log_id = ''u'', timestamp = 0, processed = False,
             log_content = Some ''{}'', name = None, data = Undefined,
             output_type = None, callId = None\<rparr>],
           []) \<and>
   map_option (\<lambda>s. (chain (snd s), calls (workingMemory (snd s)), suspended (snd s), logger (snd s)))
     (run (\<lambda>e::unit. JsonString [])
        [Chunk [Start ''action_call'' Map.empty, Text ''{}'', End], Settle 0 (PrepareFailed ())]
        (initial_stream 0, createContextStreamHandler False (\<lambda>n. ''u'') 0)) =
     Some ([], [], [], [])"
  by (simp add: turn_def resume_def handleActionCallStream_resume_def
      handleChunk_def initial_stream_def createContextStreamHandler_def handler_def
      getOrCreateRef_def pushLogStream_def handleActionCallStream_def Let_def)

subsection \<open>What a stream commits within its own turns\<close>

lemma handleEvent_trace:
  assumes "handleEvent record_call ev (ss, tr) = (ss', tr')"
  shows "handleEvent fn ev (ss, foldl (\<lambda>s el. fn el s) s0 tr) =
           (ss', foldl (\<lambda>s el. fn el s) s0 tr')"
  using assms
  by (cases ev) (auto simp: record_call_def Let_def split: option.splits)

lemma handleChunk_trace:
  assumes "handleChunk record_call evs (ss, []) = (ss', tr)"
  shows "handleChunk fn evs (ss, s0) = (ss', foldl (\<lambda>s el. fn el s) s0 tr)"
  using assms
proof (induction evs arbitrary: ss' tr rule: rev_induct)
  case Nil
  then show ?case by (simp add: handleChunk_def)
next
  case (snoc ev evs)
  obtain ss1 tr1 where r: "handleChunk record_call evs (ss, []) = (ss1, tr1)"
    by (cases "handleChunk record_call evs (ss, [])")
  from snoc.prems have e: "handleEvent record_call ev (ss1, tr1) = (ss', tr)"
    by (simp add: handleChunk_def r [unfolded handleChunk_def])
  have "handleChunk fn (evs @ [ev]) (ss, s0) = handleEvent fn ev (handleChunk fn evs (ss, s0))"
    by (simp add: handleChunk_def)
  also have "\<dots> = handleEvent fn ev (ss1, foldl (\<lambda>s el. fn el s) s0 tr1)"
    by (simp only: snoc.IH [OF r])
  also have "\<dots> = (ss', foldl (\<lambda>s el. fn el s) s0 tr)"
    by (rule handleEvent_trace [OF e])
  finally show ?case .
qed

lemma handler_aborted_same: "aborted (handler el d) = aborted d"
proof (cases "aborted d")
  case True
  then show ?thesis by (simp add: handler_aborted)
next
  case False
  let ?d = "d\<lparr>state_index := max (index el) (state_index d)\<rparr>"
  consider (think) "tag el = ''think'' \<or> tag el = ''reasoning''"
    | (call) "tag el = ''action_call''"
    | (out) "tag el = ''output''"
    | (other) "tag el \<noteq> ''think''" "tag el \<noteq> ''reasoning''" "tag el \<noteq> ''action_call''"
        "tag el \<noteq> ''output''"
    by blast
  then show ?thesis
  proof cases
    case think
    obtain r st1 where g: "getOrCreateRef (index el) Thought ?d = (r, st1)"
      by (cases "getOrCreateRef (index el) Thought ?d")
    show ?thesis using getOrCreateRef_result(9) [OF g]
      by (simp add: handler_think [OF False think g] pushLogStream_frame)
  next
    case call
    obtain r st1 where g: "getOrCreateRef (index el) ActionCall ?d = (r, st1)"
      by (cases "getOrCreateRef (index el) ActionCall ?d")
    show ?thesis using getOrCreateRef_result(9) [OF g]
      by (simp add: handler_action_call [OF False call g] handleActionCallStream_def
          pushLogStream_frame)
  next
    case out
    obtain r st1 where g: "getOrCreateRef (index el) Output ?d = (r, st1)"
      by (cases "getOrCreateRef (index el) Output ?d")
    show ?thesis using getOrCreateRef_result(9) [OF g]
      by (simp add: handler_output [OF False out g] handleOutputStream_def
          pushLogStream_frame)
  next
    case other
    then show ?thesis by (simp add: handler_other [OF False])
  qed
qed




subsection \<open>A rejected execution\<close>

lemma error_result_cases:
  "error_result stringify call err st =
     (case stringify err of
        JsonThrows \<Rightarrow> None
      | JsonString s \<Rightarrow>
          Some \<lparr>ref = ActionResult, log_id = uuids st (drawn st), timestamp = clock st,
                processed = False, log_content = None, name = name call,
                data = ErrorObject (Some s), output_type = None,
                callId = Some (log_id call)\<rparr>
      | JsonUndefined \<Rightarrow>
          Some \<lparr>ref = ActionResult, log_id = uuids st (drawn st), timestamp = clock st,
                processed = False, log_content = None, name = name call,
                data = ErrorObject None, output_type = None,
                callId = Some (log_id call)\<rparr>)"
  by (simp add: error_result_def)

text \<open>
  When JSON.stringify returns for the thrown value, the failure becomes a committed
  result with the call's id and name; the turn is an ordinary one.
\<close>

lemma action_failure_serialised:
  assumes "k < length (suspended d)" and "suspended d ! k = AwaitAction call"
    and "stringify err \<noteq> JsonThrows"
  shows "\<exists>res d'.
           actionCall_settled stringify call (ActionFailed err)
             (d\<lparr>suspended := take k (suspended d) @ drop (Suc k) (suspended d)\<rparr>) =
             Some (Some res, d') \<and>
           turn stringify (Settle k (ActionFailed err)) (ss, d) = Some (ss, d') \<and>
           ref res = ActionResult \<and> callId res = Some (log_id call) \<and> name res = name call \<and>
           data res = ErrorObject (case stringify err of JsonString s \<Rightarrow> Some s | _ \<Rightarrow> None) \<and>
           processed res = False \<and>
           chain d' = chain d @ [res] \<and>
           results (workingMemory d') = results (workingMemory d) @ [res] \<and>
           aborted d' = aborted d"
proof -
  let ?d = "d\<lparr>suspended := take k (suspended d) @ drop (Suc k) (suspended d)\<rparr>"
  from assms(3) obtain res where r: "error_result stringify call err ?d = Some res"
    by (cases "stringify err") (simp_all add: error_result_def)
  let ?d' = "pushLogStream res True (?d\<lparr>drawn := drawn ?d + 1\<rparr>)"
  have a: "actionCall_settled stringify call (ActionFailed err) ?d = Some (Some res, ?d')"
    by (simp add: actionCall_settled_failed r)
  have b: "turn stringify (Settle k (ActionFailed err)) (ss, d) = Some (ss, ?d')"
    by (simp only: turn_Settle [OF assms(1)] assms(2) resume_action a option.map snd_conv)
  have c: "ref res = ActionResult" "callId res = Some (log_id call)" "name res = name call"
    "data res = ErrorObject (case stringify err of JsonString s \<Rightarrow> Some s | _ \<Rightarrow> None)"
    "processed res = False"
    using r by (cases "stringify err"; auto simp: error_result_def)+
  have e: "chain ?d' = chain d @ [res]"
    "results (workingMemory ?d') = results (workingMemory d) @ [res]"
    "aborted ?d' = aborted d"
    using c(1) by (simp_all add: pushLogStream_chain pushLogStream_results pushLogStream_frame)
  from a b c e show ?thesis by blast
qed

text \<open>
  When JSON.stringify throws, nothing is committed and the promise is rejected.
\<close>

lemma action_failure_not_serialisable:
  assumes "k < length (suspended d)" and "suspended d ! k = AwaitAction call"
    and "stringify err = JsonThrows"
  shows "actionCall_settled stringify call (ActionFailed err)
             (d\<lparr>suspended := take k (suspended d) @ drop (Suc k) (suspended d)\<rparr>) =
           Some (None, d\<lparr>suspended := take k (suspended d) @ drop (Suc k) (suspended d),
                        drawn := drawn d + 1\<rparr>) \<and>
         turn stringify (Settle k (ActionFailed err)) (ss, d) =
           Some (ss, d\<lparr>suspended := take k (suspended d) @ drop (Suc k) (suspended d),
                      drawn := drawn d + 1\<rparr>)"
proof -
  let ?d = "d\<lparr>suspended := take k (suspended d) @ drop (Suc k) (suspended d)\<rparr>"
  have r: "error_result stringify call err ?d = None"
    using assms(3) by (simp add: error_result_def)
  have a: "actionCall_settled stringify call (ActionFailed err) ?d =
      Some (None, ?d\<lparr>drawn := drawn ?d + 1\<rparr>)"
    by (simp add: actionCall_settled_failed r)
  have b: "turn stringify (Settle k (ActionFailed err)) (ss, d) =
      Some (ss, ?d\<lparr>drawn := drawn ?d + 1\<rparr>)"
    by (simp only: turn_Settle [OF assms(1)] assms(2) resume_action a option.map snd_conv)
  from a b show ?thesis by simp
qed

text \<open>
  Claim C6: the code loses a failure that JSON.stringify cannot serialise. In the first
  run an action call is dispatched, prepared and started, and its execution rejects with
  a value on which JSON.stringify throws (a circular object, a BigInt). The \<open>.catch\<close>
  callback throws in its turn and the \<open>.then\<close> callback does not run: the chain holds
  the call and no result, the results of the working memory are empty, nothing is
  pending, and the promise pushed to \<open>actionCalls\<close> is rejected (\<open>None\<close>). In the last
  run the execution rejects with a value that JSON.stringify serialises, and the result
  the claim describes is committed after the call.
\<close>

theorem unserialisable_failure_is_lost:
  "map_option (\<lambda>s. (map ref (chain (snd s)), results (workingMemory (snd s)), suspended (snd s)))
     (run (\<lambda>r::json_result. r)
        [Chunk [Start ''action_call'' [''name'' \<mapsto> ''foo''], Text ''{}'', End],
         Settle 0 Prepared,
         Settle 0 (ActionFailed JsonThrows)]
        (initial_stream 0, createContextStreamHandler False (\<lambda>n. ''u'') 0)) =
     Some ([ActionCall], [], []) \<and>
   map_option fst
     (actionCall_settled (\<lambda>r::json_result. r)
        \<lparr>ref = ActionCall, log_id = ''u'', timestamp = 0, processed = False,
         log_content = Some ''{}'', name = Some ''foo'', data = Undefined,
         output_type = None, callId = None\<rparr>
        (ActionFailed JsonThrows)
        (createContextStreamHandler False (\<lambda>n. ''u'') 0)) = Some None \<and>
   map_option (\<lambda>s. map (\<lambda>l. (ref l, callId l, name l, data l)) (chain (snd s)))
     (run (\<lambda>r::json_result. r)
        [Chunk [Start ''action_call'' [''name'' \<mapsto> ''foo''], Text ''{}'', End],
         Settle 0 Prepared,
         Settle 0 (ActionFailed (JsonString ''boom''))]
        (initial_stream 0, createContextStreamHandler False (\<lambda>n. ''u'') 0)) =
     Some [(ActionCall, None, Some ''foo'', Undefined),
           (ActionResult, Some ''u'', Some ''foo'', ErrorObject (Some ''boom''))]"
  by (simp add: turn_def resume_def handleActionCallStream_resume_def actionCall_settled_def
      error_result_def handleChunk_def initial_stream_def createContextStreamHandler_def
      handler_def getOrCreateRef_def pushLogStream_def handleActionCallStream_def Let_def
      last_of_def)

subsection \<open>Cancellation and the stream\<close>

lemma handleChunk_counter:
  "counter (fst (handleChunk fn evs (ss, s))) = counter ss + int (length (filter is_Start evs))"
proof (induction evs arbitrary: ss s)
  case Nil
  then show ?case by (simp add: handleChunk_def)
next
  case (Cons ev evs)
  obtain ss1 s1 where h: "handleEvent fn ev (ss, s) = (ss1, s1)"
    by (cases "handleEvent fn ev (ss, s)")
  have c: "counter ss1 = counter ss + (if is_Start ev then 1 else 0)"
    using handleEvent_counter [of fn ev ss s] h by simp
  have "handleChunk fn (ev # evs) (ss, s) = handleChunk fn evs (ss1, s1)"
    by (simp add: handleChunk_def h)
  then show ?case using Cons.IH [of ss1 s1] c by simp
qed

lemma handleChunk_aborted_state:
  assumes "aborted d"
  shows "handleChunk handler evs (ss, d) = (fst (handleChunk record_call evs (ss, [])), d)"
proof -
  obtain ss' tr where r: "handleChunk record_call evs (ss, []) = (ss', tr)"
    by (cases "handleChunk record_call evs (ss, [])")
  from handleChunk_trace [OF r, of handler d]
  have "fst (handleChunk handler evs (ss, d)) = ss'" by simp
  moreover have "snd (handleChunk handler evs (ss, d)) = d"
    using assms by (rule handleChunk_aborted)
  ultimately show ?thesis using r by (simp add: prod_eq_iff)
qed

text \<open>
  Claim C7, as stated, fails for the creation of the next element: handleStream never
  reads the signal. A first element is opened, the signal is aborted, and the stream
  delivers the start of a second element: handleStream creates it with index 1, makes
  it \<open>current\<close> above the first and moves its counter to 2. Only the dispatcher
  ignores it: no record is stored for index 1 and no hook is called beyond the one of
  the first element.
\<close>

theorem cancelled_stream_still_creates_counterexample:
  "map_option (\<lambda>s. (current (fst s), stack (fst s), counter (fst s), logsByIndex (snd s) 1,
                    length (hooks (snd s))))
     (run (\<lambda>r::json_result. r)
        [Chunk [Start ''think'' Map.empty], Abort, Chunk [Start ''think'' Map.empty]]
        (initial_stream 0, createContextStreamHandler False (\<lambda>n. ''u'') 0)) =
     Some (Some \<lparr>index = 1, tag = ''think'', attributes = Map.empty, content = [],
                  el_done = False\<rparr>,
           [\<lparr>index = 0, tag = ''think'', attributes = Map.empty, content = [],
             el_done = False\<rparr>],
           2, None, 1)"
  by (simp add: turn_def handleChunk_def initial_stream_def createContextStreamHandler_def
      handler_def getOrCreateRef_def pushLogStream_def Let_def)

text \<open>
  Claim C7, amended. With the signal aborted:
  \<^item> handleStream goes on as before: over any chunk its state is the one it reaches
    with any other callback, every start event creates an element and takes the next
    index; but the dispatcher is left as it is by the whole chunk, since \<open>handler\<close>
    returns at once for every update: no record is stored, no hook is called, nothing
    is committed and no pipeline is started for an element that arrives after the abort;
  \<^item> an action call whose prepareActionCall resolves after the abort is neither
    committed nor executed: its continuation ends and leaves nothing pending, so no
    result is produced for it;
  \<^item> the execution of a call that was already pending has no abort check: when it
    completes, its result is committed by pushLogStream as ever, and when it fails
    with a value that JSON.stringify serialises, the result built from the failure is.
\<close>

theorem cancellation:
  assumes "aborted d"
  shows "handleChunk handler evs (ss, d) = (fst (handleChunk record_call evs (ss, [])), d) \<and>
         counter (fst (handleChunk handler evs (ss, d))) =
           counter ss + int (length (filter is_Start evs)) \<and>
         handler el d = d \<and>
         handleActionCallStream_resume call d = d \<and>
         resume stringify (AwaitPrepare call) Prepared d = Some d \<and>
         resume stringify (AwaitAction call) (ActionDone res) d = Some (pushLogStream res True d) \<and>
         chain (pushLogStream res True d) = chain d @ [res] \<and>
         results (workingMemory (pushLogStream res True d)) =
           results (workingMemory d) @ (if ref res = ActionResult then [res] else []) \<and>
         (case error_result stringify call err d of
            None \<Rightarrow> True
          | Some r \<Rightarrow>
              resume stringify (AwaitAction call) (ActionFailed err) d =
                Some (pushLogStream r True (d\<lparr>drawn := drawn d + 1\<rparr>)) \<and>
              chain (pushLogStream r True (d\<lparr>drawn := drawn d + 1\<rparr>)) = chain d @ [r]) \<and>
         (\<forall>k. k < length (suspended d) \<and> suspended d ! k = AwaitPrepare call \<longrightarrow>
            turn stringify (Settle k Prepared) (ss, d) =
              Some (ss, d\<lparr>suspended := take k (suspended d) @ drop (Suc k) (suspended d)\<rparr>)) \<and>
         (\<forall>k. k < length (suspended d) \<and> suspended d ! k = AwaitAction call \<longrightarrow>
            (\<exists>d'. turn stringify (Settle k (ActionDone res)) (ss, d) = Some (ss, d') \<and>
                  chain d' = chain d @ [res] \<and>
                  results (workingMemory d') =
                    results (workingMemory d) @ (if ref res = ActionResult then [res] else [])))"
proof -
  have s: "handleChunk handler evs (ss, d) = (fst (handleChunk record_call evs (ss, [])), d)"
    using assms by (rule handleChunk_aborted_state)
  have n: "counter (fst (handleChunk handler evs (ss, d))) =
           counter ss + int (length (filter is_Start evs))"
    by (rule handleChunk_counter)
  have a: "handler el d = d" using assms by (rule handler_aborted)
  have c: "handleActionCallStream_resume call d = d"
    using assms by (simp add: handleActionCallStream_resume_def)
  have e: "resume stringify (AwaitPrepare call) Prepared d = Some d"
    using c by (simp add: resume_def)
  have f: "resume stringify (AwaitAction call) (ActionDone res) d = Some (pushLogStream res True d)"
    by (simp add: resume_action actionCall_settled_done)
  have g: "case error_result stringify call err d of
            None \<Rightarrow> True
          | Some r \<Rightarrow>
              resume stringify (AwaitAction call) (ActionFailed err) d =
                Some (pushLogStream r True (d\<lparr>drawn := drawn d + 1\<rparr>)) \<and>
              chain (pushLogStream r True (d\<lparr>drawn := drawn d + 1\<rparr>)) = chain d @ [r]"
    by (simp add: resume_action actionCall_settled_failed pushLogStream_chain
        split: option.splits)
  have h: "chain (pushLogStream res True d) = chain d @ [res]"
    "results (workingMemory (pushLogStream res True d)) =
           results (workingMemory d) @ (if ref res = ActionResult then [res] else [])"
    by (simp_all add: pushLogStream_chain pushLogStream_results)
  have i: "\<forall>k. k < length (suspended d) \<and> suspended d ! k = AwaitPrepare call \<longrightarrow>
            turn stringify (Settle k Prepared) (ss, d) =
              Some (ss, d\<lparr>suspended := take k (suspended d) @ drop (Suc k) (suspended d)\<rparr>)"
    using assms by (simp add: turn_Settle resume_def handleActionCallStream_resume_def)
  have j: "\<forall>k. k < length (suspended d) \<and> suspended d ! k = AwaitAction call \<longrightarrow>
            (\<exists>d'. turn stringify (Settle k (ActionDone res)) (ss, d) = Some (ss, d') \<and>
                  chain d' = chain d @ [res] \<and>
                  results (workingMemory d') =
                    results (workingMemory d) @ (if ref res = ActionResult then [res] else []))"
    by (simp add: turn_Settle resume_action actionCall_settled_done pushLogStream_chain
        pushLogStream_results)
  from s n a c e f h g i j show ?thesis by (intro conjI)
qed

theorem cancellation_witness:
  "aborted
     \<lparr>state_index = 0, logsByIndex = Map.empty,
      chain = [\<lparr>ref = ActionCall, log_id = ''c'', timestamp = 2, processed = False,
                log_content = Some ''{}'', name = Some ''foo'', data = Undefined,
                output_type = None, callId = None\<rparr>],
      workingMemory = \<lparr>thoughts = [],
         calls = [\<lparr>ref = ActionCall, log_id = ''c'', timestamp = 2, processed = False,
                    log_content = Some ''{}'', name = Some ''foo'', data = Undefined,
                    output_type = None, callId = None\<rparr>],
         results = [], outputs = []\<rparr>,
      actionCalls = [\<lparr>ref = ActionCall, log_id = ''c'', timestamp = 2, processed = False,
                log_content = Some ''{}'', name = Some ''foo'', data = Undefined,
                output_type = None, callId = None\<rparr>],
      aborted = True, generateMemories = False, hooks = [], logger = [],
      episodes = [], suspended = [], uuids = (\<lambda>n. ''u''), drawn = 1, clock = 3\<rparr> \<and>
   handleChunk handler [Start ''think'' Map.empty]
     (\<lparr>current = None, stack = [], counter = 1\<rparr>,
      \<lparr>state_index = 0, logsByIndex = Map.empty,
      chain = [\<lparr>ref = ActionCall, log_id = ''c'', timestamp = 2, processed = False,
                log_content = Some ''{}'', name = Some ''foo'', data = Undefined,
                output_type = None, callId = None\<rparr>],
      workingMemory = \<lparr>thoughts = [],
         calls = [\<lparr>ref = ActionCall, log_id = ''c'', timestamp = 2, processed = False,
                    log_content = Some ''{}'', name = Some ''foo'', data = Undefined,
                    output_type = None, callId = None\<rparr>],
         results = [], outputs = []\<rparr>,
      actionCalls = [\<lparr>ref = ActionCall, log_id = ''c'', timestamp = 2, processed = False,
                log_content = Some ''{}'', name = Some ''foo'', data = Undefined,
                output_type = None, callId = None\<rparr>],
      aborted = True, generateMemories = False, hooks = [], logger = [],
      episodes = [], suspended = [], uuids = (\<lambda>n. ''u''), drawn = 1, clock = 3\<rparr>) =
     (\<lparr>current = Some \<lparr>index = 1, tag = ''think'', attributes = Map.empty, content = [],
                          el_done = False\<rparr>,
       stack = [], counter = 2\<rparr>,
      \<lparr>state_index = 0, logsByIndex = Map.empty,
      chain = [\<lparr>ref = ActionCall, log_id = ''c'', timestamp = 2, processed = False,
                log_content = Some ''{}'', name = Some ''foo'', data = Undefined,
                output_type = None, callId = None\<rparr>],
      workingMemory = \<lparr>thoughts = [],
         calls = [\<lparr>ref = ActionCall, log_id = ''c'', timestamp = 2, processed = False,
                    log_content = Some ''{}'', name = Some ''foo'', data = Undefined,
                    output_type = None, callId = None\<rparr>],
         results = [], outputs = []\<rparr>,
      actionCalls = [\<lparr>ref = ActionCall, log_id = ''c'', timestamp = 2, processed = False,
                log_content = Some ''{}'', name = Some ''foo'', data = Undefined,
                output_type = None, callId = None\<rparr>],
      aborted = True, generateMemories = False, hooks = [], logger = [],
      episodes = [], suspended = [], uuids = (\<lambda>n. ''u''), drawn = 1, clock = 3\<rparr>) \<and>
   map_option chain
     (resume (\<lambda>r::json_result. r)
        (AwaitAction \<lparr>ref = ActionCall, log_id = ''c'', timestamp = 2, processed = False,
                log_content = Some ''{}'', name = Some ''foo'', data = Undefined,
                output_type = None, callId = None\<rparr>)
        (ActionDone \<lparr>ref = ActionResult, log_id = ''r'', timestamp = 9, processed = False,
                log_content = None, name = Some ''foo'', data = OtherData ''42'',
                output_type = None, callId = Some ''c''\<rparr>)
        \<lparr>state_index = 0, logsByIndex = Map.empty,
      chain = [\<lparr>ref = ActionCall, log_id = ''c'', timestamp = 2, processed = False,
                log_content = Some ''{}'', name = Some ''foo'', data = Undefined,
                output_type = None, callId = None\<rparr>],
      workingMemory = \<lparr>thoughts = [],
         calls = [\<lparr>ref = ActionCall, log_id = ''c'', timestamp = 2, processed = False,
                    log_content = Some ''{}'', name = Some ''foo'', data = Undefined,
                    output_type = None, callId = None\<rparr>],
         results = [], outputs = []\<rparr>,
      actionCalls = [\<lparr>ref = ActionCall, log_id = ''c'', timestamp = 2, processed = False,
                log_content = Some ''{}'', name = Some ''foo'', data = Undefined,
                output_type = None, callId = None\<rparr>],
      aborted = True, generateMemories = False, hooks = [], logger = [],
      episodes = [], suspended = [], uuids = (\<lambda>n. ''u''), drawn = 1, clock = 3\<rparr>) =
   Some [\<lparr>ref = ActionCall, log_id = ''c'', timestamp = 2, processed = False,
                log_content = Some ''{}'', name = Some ''foo'', data = Undefined,
                output_type = None, callId = None\<rparr>,
         \<lparr>ref = ActionResult, log_id = ''r'', timestamp = 9, processed = False,
                log_content = None, name = Some ''foo'', data = OtherData ''42'',
                output_type = None, callId = Some ''c''\<rparr>]"
proof -
  let ?c = "\<lparr>ref = ActionCall, log_id = ''c'', timestamp = 2, processed = False,
                log_content = Some ''{}'', name = Some ''foo'', data = Undefined,
                output_type = None, callId = None\<rparr>"
  let ?r = "\<lparr>ref = ActionResult, log_id = ''r'', timestamp = 9, processed = False,
                log_content = None, name = Some ''foo'', data = OtherData ''42'',
                output_type = None, callId = Some ''c''\<rparr>"
  let ?d = "\<lparr>state_index = 0, logsByIndex = Map.empty, chain = [?c],
      workingMemory = \<lparr>thoughts = [], calls = [?c], results = [], outputs = []\<rparr>,
      actionCalls = [?c], aborted = True, generateMemories = False, hooks = [], logger = [],
      episodes = [], suspended = [], uuids = (\<lambda>n. ''u''), drawn = 1, clock = 3\<rparr>"
  let ?ss = "\<lparr>current = None, stack = [], counter = 1\<rparr>"
  have a: "aborted ?d" by simp
  note inst = cancellation [OF a, where evs = "[Start ''think'' Map.empty]" and ss = ?ss
      and call = ?c and res = ?r and stringify = "\<lambda>r::json_result. r"]
  from inst have h: "handleChunk handler [Start ''think'' Map.empty] (?ss, ?d) =
      (fst (handleChunk record_call [Start ''think'' Map.empty] (?ss, [])), ?d)"
    by (rule conjunct1)
  have t: "fst (handleChunk record_call [Start ''think'' Map.empty] (?ss, [])) =
      \<lparr>current = Some \<lparr>index = 1, tag = ''think'', attributes = Map.empty, content = [],
                          el_done = False\<rparr>, stack = [], counter = 2\<rparr>"
    by (simp add: handleChunk_def Let_def)
  from inst have r: "resume (\<lambda>r::json_result. r) (AwaitAction ?c) (ActionDone ?r) ?d =
      Some (pushLogStream ?r True ?d)" by blast
  from inst have c: "chain (pushLogStream ?r True ?d) = chain ?d @ [?r]" by blast
  have "map_option chain (resume (\<lambda>r::json_result. r) (AwaitAction ?c) (ActionDone ?r) ?d) =
      Some [?c, ?r]"
    by (simp only: r c option.map) simp
  with a h [unfolded t] show ?thesis by (intro conjI)
qed

text \<open>
  The same on a whole run: an action call is dispatched, prepared and started; the signal
  is aborted; the stream delivers a think element, for which handleStream hands out index
  1 but the dispatcher stores no record and commits nothing; then the pending execution
  completes and its result is committed after the call.
\<close>

lemma cancellation_scenario:
  "map_option (\<lambda>s. (map ref (chain (snd s)), logsByIndex (snd s) 1, counter (fst s)))
     (run (\<lambda>e::unit. JsonString [])
        [Chunk [Start ''action_call'' [''name'' \<mapsto> ''foo''], Text ''{}'', End],
         Settle 0 Prepared,
         Abort,
         Chunk [Start ''think'' Map.empty, Text ''hm'', End],
         Settle 0 (ActionDone \<lparr>ref = ActionResult, log_id = ''r'', timestamp = 9, processed = False,
                log_content = None, name = Some ''foo'', data = OtherData ''42'',
                output_type = None, callId = Some ''u''\<rparr>)]
        (initial_stream 0, createContextStreamHandler False (\<lambda>n. ''u'') 0)) =
     Some ([ActionCall, ActionResult], None, 2)"
  by (simp add: turn_def resume_def handleActionCallStream_resume_def actionCall_settled_def
      handleChunk_def initial_stream_def createContextStreamHandler_def handler_def
      getOrCreateRef_def pushLogStream_def handleActionCallStream_def Let_def last_of_def)

subsection \<open>Final updates and their continuations\<close>


lemma handler_done_thought:
  assumes "\<not> aborted d" "is_thought_final el"
  shows "\<exists>p. logsByIndex (handler el d) (index el) = Some p \<and>
           (case logsByIndex d (index el) of None \<Rightarrow> ref p = Thought | Some q \<Rightarrow> p = q) \<and>
           chain (handler el d) = chain d @ [p\<lparr>log_content := Some (concat (content el))\<rparr>] \<and>
           thoughts (workingMemory (handler el d)) =
             thoughts (workingMemory d) @
               (if ref p = Thought then [p\<lparr>log_content := Some (concat (content el))\<rparr>] else []) \<and>
           calls (workingMemory (handler el d)) =
             calls (workingMemory d) @
               (if ref p = ActionCall then [p\<lparr>log_content := Some (concat (content el))\<rparr>] else []) \<and>
           results (workingMemory (handler el d)) =
             results (workingMemory d) @
               (if ref p = ActionResult then [p\<lparr>log_content := Some (concat (content el))\<rparr>] else []) \<and>
           outputs (workingMemory (handler el d)) = outputs (workingMemory d)"
proof -
  let ?d = "d\<lparr>state_index := max (index el) (state_index d)\<rparr>"
  from assms(2) have think: "tag el = ''think'' \<or> tag el = ''reasoning''" and dn: "el_done el"
    by (simp_all add: is_thought_final_def)
  obtain r st1 where g: "getOrCreateRef (index el) Thought ?d = (r, st1)"
    by (cases "getOrCreateRef (index el) Thought ?d")
  note h = handler_think [OF assms(1) think g]
  note f = getOrCreateRef_result [OF g]
  have a: "logsByIndex (handler el d) (index el) = Some r"
    using f(1) by (simp add: h pushLogStream_frame)
  have b: "case logsByIndex d (index el) of None \<Rightarrow> ref r = Thought | Some q \<Rightarrow> r = q"
    using f(15) by (simp split: option.splits)
  have c: "chain (handler el d) = chain d @ [r\<lparr>log_content := Some (concat (content el))\<rparr>]"
    using f(3) dn by (simp add: h pushLogStream_chain)
  have e: "thoughts (workingMemory (handler el d)) =
             thoughts (workingMemory d) @
               (if ref r = Thought then [r\<lparr>log_content := Some (concat (content el))\<rparr>] else [])"
    "calls (workingMemory (handler el d)) =
             calls (workingMemory d) @
               (if ref r = ActionCall then [r\<lparr>log_content := Some (concat (content el))\<rparr>] else [])"
    "results (workingMemory (handler el d)) =
             results (workingMemory d) @
               (if ref r = ActionResult then [r\<lparr>log_content := Some (concat (content el))\<rparr>] else [])"
    "outputs (workingMemory (handler el d)) = outputs (workingMemory d)"
    using f(4) dn
    by (simp_all add: h pushLogStream_thoughts pushLogStream_calls pushLogStream_results
        pushLogStream_outputs)
  from a b c e show ?thesis by (intro exI [of _ r] conjI)
qed

lemma handler_done_action_call:
  assumes "\<not> aborted d" "tag el = ''action_call''" "el_done el"
  shows "\<exists>p. logsByIndex (handler el d) (index el) = Some p \<and>
           (case logsByIndex d (index el) of None \<Rightarrow> ref p = ActionCall | Some q \<Rightarrow> p = q) \<and>
           chain (handler el d) = chain d \<and> workingMemory (handler el d) = workingMemory d \<and>
           hooks (handler el d) = hooks d \<and>
           suspended (handler el d) =
             suspended d @
               [AwaitPrepare (p\<lparr>name := attributes el ''name'',
                                log_content := Some (concat (content el)),
                                data := Undefined\<rparr>)]"
proof -
  let ?d = "d\<lparr>state_index := max (index el) (state_index d)\<rparr>"
  obtain r st1 where g: "getOrCreateRef (index el) ActionCall ?d = (r, st1)"
    by (cases "getOrCreateRef (index el) ActionCall ?d")
  note h = handler_action_call [OF assms(1,2) g]
  note f = getOrCreateRef_result [OF g]
  have a: "logsByIndex (handler el d) (index el) = Some r"
    using f(1) by (simp add: h handleActionCallStream_frame)
  have b: "case logsByIndex d (index el) of None \<Rightarrow> ref r = ActionCall | Some q \<Rightarrow> r = q"
    using f(15) by (simp split: option.splits)
  have c: "chain (handler el d) = chain d" "workingMemory (handler el d) = workingMemory d"
    "hooks (handler el d) = hooks d"
    using f(3,4,5) assms(3) by (simp_all add: h handleActionCallStream_frame)
  have e: "suspended (handler el d) =
             suspended d @
               [AwaitPrepare (r\<lparr>name := attributes el ''name'',
                                log_content := Some (concat (content el)),
                                data := Undefined\<rparr>)]"
    using f(6) assms(3) by (simp add: h handleActionCallStream_frame)
  from a b c e show ?thesis by (intro exI [of _ r] conjI)
qed

lemma handler_done_output:
  assumes "\<not> aborted d" "tag el = ''output''" "el_done el" "\<not> falsy (attributes el ''type'')"
  shows "\<exists>p. logsByIndex (handler el d) (index el) = Some p \<and>
           (case logsByIndex d (index el) of None \<Rightarrow> ref p = Output | Some q \<Rightarrow> p = q) \<and>
           chain (handler el d) = chain d \<and> workingMemory (handler el d) = workingMemory d \<and>
           hooks (handler el d) = hooks d \<and>
           suspended (handler el d) =
             suspended d @
               [AwaitOutput (p\<lparr>output_type := attributes el ''type'',
                               data := StringData (trim (concat (content el)))\<rparr>)]"
proof -
  let ?d = "d\<lparr>state_index := max (index el) (state_index d)\<rparr>"
  obtain r st1 where g: "getOrCreateRef (index el) Output ?d = (r, st1)"
    by (cases "getOrCreateRef (index el) Output ?d")
  note h = handler_output [OF assms(1,2) g]
  note f = getOrCreateRef_result [OF g]
  have a: "logsByIndex (handler el d) (index el) = Some r"
    using f(1) assms(4) by (simp add: h handleOutputStream_frame)
  have b: "case logsByIndex d (index el) of None \<Rightarrow> ref r = Output | Some q \<Rightarrow> r = q"
    using f(15) by (simp split: option.splits)
  have c: "chain (handler el d) = chain d" "workingMemory (handler el d) = workingMemory d"
    "hooks (handler el d) = hooks d"
    using f(3,4,5) assms(3,4) by (simp_all add: h handleOutputStream_frame)
  have e: "suspended (handler el d) =
             suspended d @
               [AwaitOutput (r\<lparr>output_type := attributes el ''type'',
                               data := StringData (trim (concat (content el)))\<rparr>)]"
    using f(6) assms(3,4) by (simp add: h handleOutputStream_frame)
  from a b c e show ?thesis by (intro exI [of _ r] conjI)
qed

text \<open>The turns in which the continuations of final updates run.\<close>

lemma settle_prepared:
  assumes "k < length (suspended d)" "suspended d ! k = AwaitPrepare c"
  shows "\<exists>d'. turn stringify (Settle k Prepared) (ss, d) = Some (ss, d') \<and>
           chain d' = chain d @ (if aborted d then [] else [c]) \<and>
           calls (workingMemory d') =
             calls (workingMemory d) @ (if aborted d \<or> ref c \<noteq> ActionCall then [] else [c]) \<and>
           (ref c = ActionCall \<longrightarrow>
              suspended d' =
                take k (suspended d) @ drop (Suc k) (suspended d) @
                  (if aborted d then [] else [AwaitAction c]))"
proof -
  let ?d = "d\<lparr>suspended := take k (suspended d) @ drop (Suc k) (suspended d)\<rparr>"
  have t: "turn stringify (Settle k Prepared) (ss, d) =
      Some (ss, handleActionCallStream_resume c ?d)"
    by (simp add: turn_Settle [OF assms(1)] assms(2) resume_def)
  have a: "chain (handleActionCallStream_resume c ?d) = chain d @ (if aborted d then [] else [c])"
    by (simp add: handleActionCallStream_resume_def Let_def pushLogStream_chain)
  have b: "calls (workingMemory (handleActionCallStream_resume c ?d)) =
      calls (workingMemory d) @ (if aborted d \<or> ref c \<noteq> ActionCall then [] else [c])"
    by (simp add: handleActionCallStream_resume_def Let_def pushLogStream_calls)
  have e: "ref c = ActionCall \<longrightarrow>
      suspended (handleActionCallStream_resume c ?d) =
        take k (suspended d) @ drop (Suc k) (suspended d) @
          (if aborted d then [] else [AwaitAction c])"
    by (simp add: handleActionCallStream_resume_def Let_def pushLogStream_suspended)
  from t a b e show ?thesis by blast
qed


lemma settle_output_done:
  assumes "k < length (suspended d)" "suspended d ! k = AwaitOutput out"
  shows "\<exists>d'. turn stringify (Settle k (OutputDone refs)) (ss, d) = Some (ss, d') \<and>
           chain d' = chain d @ refs \<and>
           outputs (workingMemory d') = outputs (workingMemory d) @ refs"
  by (simp add: turn_Settle [OF assms(1)] assms(2) resume_def outputs_resume_chain
      outputs_resume_outputs)



subsection \<open>The identity of a record\<close>

text \<open>
  Claim C10, as stated, fails for outputs. The final update of an output element hands
  the element's record, with the id and the timestamp allocated for its index, to
  handleOutput; what is committed is whatever handleOutput returns. Here it returns a
  record with the id \<open>zzz\<close> and the timestamp 99: that is the final record in the
  chain and in the outputs, while the record stored for index 0 has the id \<open>u\<close> and
  the timestamp 0.
\<close>

theorem committed_output_identity_counterexample:
  "map_option
     (\<lambda>s. (map (\<lambda>l. (ref l, log_id l, timestamp l)) (chain (snd s)),
           map (\<lambda>l. (ref l, log_id l, timestamp l)) (outputs (workingMemory (snd s))),
           map_option (\<lambda>l. (ref l, log_id l, timestamp l)) (logsByIndex (snd s) 0)))
     (run (\<lambda>e::unit. JsonString [])
        [Chunk [Start ''output'' [''type'' \<mapsto> ''text''], Text ''hi'', End],
         Settle 0 (OutputDone
           [\<lparr>ref = Output, log_id = ''zzz'', timestamp = 99, processed = True,
             log_content = None, name = None, data = StringData ''hi'',
             output_type = Some ''text'', callId = None\<rparr>])]
        (initial_stream 0, createContextStreamHandler False (\<lambda>n. ''u'') 0)) =
   Some ([(Output, ''zzz'', 99)], [(Output, ''zzz'', 99)], Some (Output, ''u'', 0))"
  by (simp add: turn_def resume_def handleChunk_def initial_stream_def
      createContextStreamHandler_def handler_def getOrCreateRef_def pushLogStream_def
      handleOutputStream_def falsy_def Let_def)

text \<open>
  Claim C10, amended. Take any update \<open>el\<close> of a think, reasoning, action_call or
  output element that \<open>handler\<close> dispatches (the signal is not aborted). After it, a
  record \<open>p\<close> is stored for the element's index. If one was stored before, \<open>p\<close> is
  that record and nothing is drawn from the identifier source; if none was, \<open>p\<close>
  carries the next identifier, the current time and \<open>processed = false\<close>. Every record
  this update hands to a hook, to a collaborator or to the chain carries the id, the
  timestamp and the processed flag of \<open>p\<close>, and \<open>p\<close> stays stored for that index over
  every later turn of the event loop, so every later update of the element finds it
  again. The final records:
  \<^item> the final update of a thought commits, within the update, one record with the id
    and the timestamp of \<open>p\<close>;
  \<^item> the final update of an action call leaves one record \<open>c\<close> with the id and the
    timestamp of \<open>p\<close> waiting for prepareActionCall, and in whatever later state that
    resolves, with the signal not aborted, \<open>c\<close> itself is what is committed;
  \<^item> the final update of an output with a type leaves one record \<open>out\<close> with the id
    and the timestamp of \<open>p\<close> waiting for handleOutput, and in whatever later state
    that resolves, what is committed are the records \<open>refs\<close> it returned, with the ids
    and the timestamps these have.
\<close>

theorem record_identity_allocated_once:
  assumes na: "\<not> aborted st"
    and tg: "tag el \<in> {''think'', ''reasoning'', ''action_call'', ''output''}"
  shows "\<exists>p. logsByIndex (handler el st) (index el) = Some p \<and>
           (case logsByIndex st (index el) of
              Some q \<Rightarrow> p = q \<and> drawn (handler el st) = drawn st
            | None \<Rightarrow> log_id p = uuids st (drawn st) \<and> timestamp p = clock st \<and>
                        processed p = False \<and> drawn (handler el st) = drawn st + 1) \<and>
           (\<forall>l\<in>set (emitted_by st (handler el st)).
              log_id l = log_id p \<and> timestamp l = timestamp p \<and> processed l = processed p) \<and>
           (\<forall>ts s'. run stringify ts (ss, handler el st) = Some s' \<longrightarrow>
              logsByIndex (snd s') (index el) = Some p) \<and>
           (is_thought_final el \<longrightarrow>
              (\<exists>l. chain (handler el st) = chain st @ [l] \<and>
                   log_id l = log_id p \<and> timestamp l = timestamp p \<and>
                   processed l = processed p)) \<and>
           (tag el = ''action_call'' \<and> el_done el \<longrightarrow>
              (\<exists>c. suspended (handler el st) = suspended st @ [AwaitPrepare c] \<and>
                   log_id c = log_id p \<and> timestamp c = timestamp p \<and>
                   processed c = processed p \<and>
                   (\<forall>k ss' d'. k < length (suspended d') \<and> suspended d' ! k = AwaitPrepare c \<and>
                        \<not> aborted d' \<longrightarrow>
                      (\<exists>d''. turn stringify (Settle k Prepared) (ss', d') = Some (ss', d'') \<and>
                             chain d'' = chain d' @ [c])))) \<and>
           (tag el = ''output'' \<and> el_done el \<and> \<not> falsy (attributes el ''type'') \<longrightarrow>
              (\<exists>out. suspended (handler el st) = suspended st @ [AwaitOutput out] \<and>
                   log_id out = log_id p \<and> timestamp out = timestamp p \<and>
                   processed out = processed p \<and>
                   (\<forall>k ss' d' refs. k < length (suspended d') \<and>
                        suspended d' ! k = AwaitOutput out \<longrightarrow>
                      (\<exists>d''. turn stringify (Settle k (OutputDone refs)) (ss', d') =
                               Some (ss', d'') \<and>
                             chain d'' = chain d' @ refs \<and>
                             outputs (workingMemory d'') = outputs (workingMemory d') @ refs))))"
proof -
  from handler_allocates [OF na tg] obtain p where
    p: "logsByIndex (handler el st) (index el) = Some p"
    and q: "case logsByIndex st (index el) of
              Some q \<Rightarrow> p = q \<and> drawn (handler el st) = drawn st
            | None \<Rightarrow> log_id p = uuids st (drawn st) \<and> timestamp p = clock st \<and>
                        processed p = False \<and> drawn (handler el st) = drawn st + 1"
    and e: "\<forall>l\<in>set (emitted_by st (handler el st)).
              log_id l = log_id p \<and> timestamp l = timestamp p \<and> processed l = processed p"
    by blast
  have k: "\<forall>ts s'. run stringify ts (ss, handler el st) = Some s' \<longrightarrow>
              logsByIndex (snd s') (index el) = Some p"
  proof (intro allI impI)
    fix ts s'
    assume "run stringify ts (ss, handler el st) = Some s'"
    from run_keeps [OF this, of "index el" p] p
    show "logsByIndex (snd s') (index el) = Some p" by simp
  qed
  have t: "is_thought_final el \<longrightarrow>
              (\<exists>l. chain (handler el st) = chain st @ [l] \<and>
                   log_id l = log_id p \<and> timestamp l = timestamp p \<and>
                   processed l = processed p)"
  proof
    assume "is_thought_final el"
    from handler_done_thought [OF na this] obtain p' where
      "logsByIndex (handler el st) (index el) = Some p'"
      and c: "chain (handler el st) = chain st @ [p'\<lparr>log_content := Some (concat (content el))\<rparr>]"
      by blast
    with p have "p' = p" by simp
    with c show "\<exists>l. chain (handler el st) = chain st @ [l] \<and>
                   log_id l = log_id p \<and> timestamp l = timestamp p \<and>
                   processed l = processed p"
      by (intro exI [of _ "p\<lparr>log_content := Some (concat (content el))\<rparr>"]) simp
  qed
  have a: "tag el = ''action_call'' \<and> el_done el \<longrightarrow>
              (\<exists>c. suspended (handler el st) = suspended st @ [AwaitPrepare c] \<and>
                   log_id c = log_id p \<and> timestamp c = timestamp p \<and>
                   processed c = processed p \<and>
                   (\<forall>k ss' d'. k < length (suspended d') \<and> suspended d' ! k = AwaitPrepare c \<and>
                        \<not> aborted d' \<longrightarrow>
                      (\<exists>d''. turn stringify (Settle k Prepared) (ss', d') = Some (ss', d'') \<and>
                             chain d'' = chain d' @ [c])))"
  proof
    assume h: "tag el = ''action_call'' \<and> el_done el"
    let ?c = "p\<lparr>name := attributes el ''name'', log_content := Some (concat (content el)),
                data := Undefined\<rparr>"
    from h handler_done_action_call [OF na, of el] obtain p' where
      "logsByIndex (handler el st) (index el) = Some p'"
      and c: "suspended (handler el st) =
             suspended st @
               [AwaitPrepare (p'\<lparr>name := attributes el ''name'',
                                log_content := Some (concat (content el)),
                                data := Undefined\<rparr>)]"
      by blast
    with p have "p' = p" by simp
    with c have s: "suspended (handler el st) = suspended st @ [AwaitPrepare ?c]" by simp
    have r: "\<forall>k ss' d'. k < length (suspended d') \<and> suspended d' ! k = AwaitPrepare ?c \<and>
                        \<not> aborted d' \<longrightarrow>
                      (\<exists>d''. turn stringify (Settle k Prepared) (ss', d') = Some (ss', d'') \<and>
                             chain d'' = chain d' @ [?c])"
    proof (intro allI impI)
      fix k ss' and d' :: dispatcher
      assume g: "k < length (suspended d') \<and> suspended d' ! k = AwaitPrepare ?c \<and> \<not> aborted d'"
      from g settle_prepared [of k d' ?c stringify ss']
      show "\<exists>d''. turn stringify (Settle k Prepared) (ss', d') = Some (ss', d'') \<and>
                             chain d'' = chain d' @ [?c]"
        by auto
    qed
    from s r show "\<exists>c. suspended (handler el st) = suspended st @ [AwaitPrepare c] \<and>
                   log_id c = log_id p \<and> timestamp c = timestamp p \<and>
                   processed c = processed p \<and>
                   (\<forall>k ss' d'. k < length (suspended d') \<and> suspended d' ! k = AwaitPrepare c \<and>
                        \<not> aborted d' \<longrightarrow>
                      (\<exists>d''. turn stringify (Settle k Prepared) (ss', d') = Some (ss', d'') \<and>
                             chain d'' = chain d' @ [c]))"
      by (intro exI [of _ ?c] conjI) simp_all
  qed
  have o: "tag el = ''output'' \<and> el_done el \<and> \<not> falsy (attributes el ''type'') \<longrightarrow>
              (\<exists>out. suspended (handler el st) = suspended st @ [AwaitOutput out] \<and>
                   log_id out = log_id p \<and> timestamp out = timestamp p \<and>
                   processed out = processed p \<and>
                   (\<forall>k ss' d' refs. k < length (suspended d') \<and>
                        suspended d' ! k = AwaitOutput out \<longrightarrow>
                      (\<exists>d''. turn stringify (Settle k (OutputDone refs)) (ss', d') =
                               Some (ss', d'') \<and>
                             chain d'' = chain d' @ refs \<and>
                             outputs (workingMemory d'') = outputs (workingMemory d') @ refs)))"
  proof
    assume h: "tag el = ''output'' \<and> el_done el \<and> \<not> falsy (attributes el ''type'')"
    let ?o = "p\<lparr>output_type := attributes el ''type'',
                data := StringData (trim (concat (content el)))\<rparr>"
    from h handler_done_output [OF na, of el] obtain p' where
      "logsByIndex (handler el st) (index el) = Some p'"
      and c: "suspended (handler el st) =
             suspended st @
               [AwaitOutput (p'\<lparr>output_type := attributes el ''type'',
                               data := StringData (trim (concat (content el)))\<rparr>)]"
      by blast
    with p have "p' = p" by simp
    with c have s: "suspended (handler el st) = suspended st @ [AwaitOutput ?o]" by simp
    have r: "\<forall>k ss' d' refs. k < length (suspended d') \<and>
                        suspended d' ! k = AwaitOutput ?o \<longrightarrow>
                      (\<exists>d''. turn stringify (Settle k (OutputDone refs)) (ss', d') =
                               Some (ss', d'') \<and>
                             chain d'' = chain d' @ refs \<and>
                             outputs (workingMemory d'') = outputs (workingMemory d') @ refs)"
    proof (intro allI impI)
      fix k ss' refs and d' :: dispatcher
      assume g: "k < length (suspended d') \<and> suspended d' ! k = AwaitOutput ?o"
      from g settle_output_done [of k d' ?o stringify refs ss']
      show "\<exists>d''. turn stringify (Settle k (OutputDone refs)) (ss', d') = Some (ss', d'') \<and>
                             chain d'' = chain d' @ refs \<and>
                             outputs (workingMemory d'') = outputs (workingMemory d') @ refs"
        by auto
    qed
    from s r show "\<exists>out. suspended (handler el st) = suspended st @ [AwaitOutput out] \<and>
                   log_id out = log_id p \<and> timestamp out = timestamp p \<and>
                   processed out = processed p \<and>
                   (\<forall>k ss' d' refs. k < length (suspended d') \<and>
                        suspended d' ! k = AwaitOutput out \<longrightarrow>
                      (\<exists>d''. turn stringify (Settle k (OutputDone refs)) (ss', d') =
                               Some (ss', d'') \<and>
                             chain d'' = chain d' @ refs \<and>
                             outputs (workingMemory d'') = outputs (workingMemory d') @ refs))"
      by (intro exI [of _ ?o] conjI) simp_all
  qed
  from p q e k t a o show ?thesis by (intro exI [of _ p] conjI)
qed

theorem record_identity_allocated_once_witness:
  "(handler \<lparr>index = 0, tag = ''action_call'', attributes = [''name'' \<mapsto> ''foo''],
             content = [], el_done = False\<rparr>
      (createContextStreamHandler False (\<lambda>n. if n = 0 then ''u0'' else ''u1'') 100))
     \<lparr>clock := 200\<rparr> =
   \<lparr>state_index = 0,
    logsByIndex = [0 \<mapsto> \<lparr>ref = ActionCall, log_id = ''u0'', timestamp = 100, processed = False,
             log_content = None, name = None, data = Undefined, output_type = None,
             callId = None\<rparr>],
    chain = [],
    workingMemory = \<lparr>thoughts = [], calls = [], results = [], outputs = []\<rparr>,
    actionCalls = [], aborted = False, generateMemories = False,
    hooks = [onLogStream \<lparr>ref = ActionCall, log_id = ''u0'', timestamp = 100, processed = False,
             log_content = Some [], name = Some ''foo'', data = Undefined, output_type = None,
             callId = None\<rparr> False],
    logger = [], episodes = [], suspended = [],
    uuids = (\<lambda>n. if n = 0 then ''u0'' else ''u1''), drawn = 1, clock = 200\<rparr> \<and>
   (\<exists>c. suspended
          (handler \<lparr>index = 0, tag = ''action_call'', attributes = [''name'' \<mapsto> ''foo''],
                    content = [''{}''], el_done = True\<rparr>
             \<lparr>state_index = 0,
              logsByIndex = [0 \<mapsto> \<lparr>ref = ActionCall, log_id = ''u0'', timestamp = 100,
                       processed = False, log_content = None, name = None, data = Undefined,
                       output_type = None, callId = None\<rparr>],
              chain = [],
              workingMemory = \<lparr>thoughts = [], calls = [], results = [], outputs = []\<rparr>,
              actionCalls = [], aborted = False, generateMemories = False,
              hooks = [onLogStream \<lparr>ref = ActionCall, log_id = ''u0'', timestamp = 100,
                       processed = False, log_content = Some [], name = Some ''foo'',
                       data = Undefined, output_type = None, callId = None\<rparr> False],
              logger = [], episodes = [], suspended = [],
              uuids = (\<lambda>n. if n = 0 then ''u0'' else ''u1''), drawn = 1, clock = 200\<rparr>) =
          [AwaitPrepare c] \<and>
        log_id c = ''u0'' \<and> timestamp c = 100 \<and>
        map_option (\<lambda>s. chain (snd s))
          (turn (\<lambda>e::unit. JsonString []) (Settle 0 Prepared)
             (initial_stream 0,
              handler \<lparr>index = 0, tag = ''action_call'', attributes = [''name'' \<mapsto> ''foo''],
                       content = [''{}''], el_done = True\<rparr>
                \<lparr>state_index = 0,
                 logsByIndex = [0 \<mapsto> \<lparr>ref = ActionCall, log_id = ''u0'', timestamp = 100,
                          processed = False, log_content = None, name = None, data = Undefined,
                          output_type = None, callId = None\<rparr>],
                 chain = [],
                 workingMemory = \<lparr>thoughts = [], calls = [], results = [], outputs = []\<rparr>,
                 actionCalls = [], aborted = False, generateMemories = False,
                 hooks = [onLogStream \<lparr>ref = ActionCall, log_id = ''u0'', timestamp = 100,
                          processed = False, log_content = Some [], name = Some ''foo'',
                          data = Undefined, output_type = None, callId = None\<rparr> False],
                 logger = [], episodes = [], suspended = [],
                 uuids = (\<lambda>n. if n = 0 then ''u0'' else ''u1''), drawn = 1, clock = 200\<rparr>)) =
          Some [c])"
proof -
  let ?el1 = "\<lparr>index = 0, tag = ''action_call'', attributes = [''name'' \<mapsto> ''foo''],
             content = [], el_done = False\<rparr>"
  let ?el2 = "\<lparr>index = 0, tag = ''action_call'', attributes = [''name'' \<mapsto> ''foo''],
             content = [''{}''], el_done = True\<rparr>"
  let ?st0 = "createContextStreamHandler False (\<lambda>n. if n = 0 then ''u0'' else ''u1'') 100"
  let ?P = "\<lparr>ref = ActionCall, log_id = ''u0'', timestamp = 100, processed = False,
             log_content = None, name = None, data = Undefined, output_type = None,
             callId = None\<rparr>"
  let ?st2 = "\<lparr>state_index = 0, logsByIndex = [0 \<mapsto> ?P], chain = [],
    workingMemory = \<lparr>thoughts = [], calls = [], results = [], outputs = []\<rparr>,
    actionCalls = [], aborted = False, generateMemories = False,
    hooks = [onLogStream (?P\<lparr>log_content := Some [], name := Some ''foo''\<rparr>) False],
    logger = [], episodes = [], suspended = [],
    uuids = (\<lambda>n. if n = 0 then ''u0'' else ''u1''), drawn = 1, clock = 200\<rparr>"
  let ?f = "\<lambda>e::unit. JsonString []"
  let ?ss = "initial_stream 0"
  have first: "(handler ?el1 ?st0)\<lparr>clock := 200\<rparr> = ?st2"
    by (simp add: handler_def createContextStreamHandler_def getOrCreateRef_def
        handleActionCallStream_def pushLogStream_def Let_def)
  have na: "\<not> aborted ?st2" by simp
  have tg: "tag ?el2 \<in> {''think'', ''reasoning'', ''action_call'', ''output''}" by simp
  have ch: "chain (handler ?el2 ?st2) = []"
    by (simp add: handler_def getOrCreateRef_def handleActionCallStream_def Let_def)
  have nb: "\<not> aborted (handler ?el2 ?st2)" by (simp add: handler_aborted_same)
  from record_identity_allocated_once [OF na tg, of ?f ?ss]
  obtain p where q: "case logsByIndex ?st2 (index ?el2) of
              Some q \<Rightarrow> p = q \<and> drawn (handler ?el2 ?st2) = drawn ?st2
            | None \<Rightarrow> log_id p = uuids ?st2 (drawn ?st2) \<and> timestamp p = clock ?st2 \<and>
                        processed p = False \<and> drawn (handler ?el2 ?st2) = drawn ?st2 + 1"
    and a: "tag ?el2 = ''action_call'' \<and> el_done ?el2 \<longrightarrow>
              (\<exists>c. suspended (handler ?el2 ?st2) = suspended ?st2 @ [AwaitPrepare c] \<and>
                   log_id c = log_id p \<and> timestamp c = timestamp p \<and>
                   processed c = processed p \<and>
                   (\<forall>k ss' d'. k < length (suspended d') \<and> suspended d' ! k = AwaitPrepare c \<and>
                        \<not> aborted d' \<longrightarrow>
                      (\<exists>d''. turn ?f (Settle k Prepared) (ss', d') = Some (ss', d'') \<and>
                             chain d'' = chain d' @ [c])))"
    by blast
  from q have pe: "p = ?P" by simp
  have "tag ?el2 = ''action_call'' \<and> el_done ?el2" by simp
  with a obtain c where s: "suspended (handler ?el2 ?st2) = suspended ?st2 @ [AwaitPrepare c]"
    and i: "log_id c = log_id p" "timestamp c = timestamp p"
    and r: "\<forall>k ss' d'. k < length (suspended d') \<and> suspended d' ! k = AwaitPrepare c \<and>
                        \<not> aborted d' \<longrightarrow>
                      (\<exists>d''. turn ?f (Settle k Prepared) (ss', d') = Some (ss', d'') \<and>
                             chain d'' = chain d' @ [c])"
    by blast
  from s have s': "suspended (handler ?el2 ?st2) = [AwaitPrepare c]" by simp
  from s' nb have "0 < length (suspended (handler ?el2 ?st2)) \<and>
      suspended (handler ?el2 ?st2) ! 0 = AwaitPrepare c \<and> \<not> aborted (handler ?el2 ?st2)"
    by simp
  with r obtain d'' where
    t: "turn ?f (Settle 0 Prepared) (?ss, handler ?el2 ?st2) = Some (?ss, d'')"
    and u: "chain d'' = chain (handler ?el2 ?st2) @ [c]"
    by blast
  from u ch have u': "chain d'' = [c]" by simp
  have v: "map_option (\<lambda>s. chain (snd s))
      (turn ?f (Settle 0 Prepared) (?ss, handler ?el2 ?st2)) = Some [c]"
    by (simp only: t u' option.map snd_conv)
  from i pe have i': "log_id c = ''u0''" "timestamp c = 100" by simp_all
  from s' i' v have "\<exists>c. suspended (handler ?el2 ?st2) = [AwaitPrepare c] \<and>
        log_id c = ''u0'' \<and> timestamp c = 100 \<and>
        map_option (\<lambda>s. chain (snd s))
          (turn ?f (Settle 0 Prepared) (?ss, handler ?el2 ?st2)) = Some [c]"
    by blast
  with first show ?thesis by simp
qed

subsection \<open>What is committed, and when\<close>

text \<open>The commit path on its own: what pushLogStream appends, update by update.\<close>

lemma pushLogStream_commits:
  "pushLogStream log False st = st\<lparr>hooks := hooks st @ [onLogStream log False]\<rparr> \<and>
   chain (pushLogStream log True st) = chain st @ [log] \<and>
   thoughts (workingMemory (pushLogStream log True st)) =
     thoughts (workingMemory st) @ (if ref log = Thought then [log] else []) \<and>
   calls (workingMemory (pushLogStream log True st)) =
     calls (workingMemory st) @ (if ref log = ActionCall then [log] else []) \<and>
   results (workingMemory (pushLogStream log True st)) =
     results (workingMemory st) @ (if ref log = ActionResult then [log] else []) \<and>
   chain (foldl (\<lambda>s u. pushLogStream (fst u) (snd u) s) st ups) =
     chain st @ map fst (filter snd ups)"
  using pushLogStream_False [of log st] pushLogStream_chain [of log True st]
    pushLogStream_thoughts [of log True st] pushLogStream_calls [of log True st]
    pushLogStream_results [of log True st] push_all_chain [of st ups]
  by simp




end
